theory Spec2Isabelle
  imports Complex_Main "HOL-Library.Word"
begin

unbundle bit_operations_syntax

section \<open>Constants of the C library\<close>

text \<open>The error numbers of \<^verbatim>\<open>errno.h\<close> (Linux) that the handlers return, negated.\<close>

abbreviation (input) EPERM :: int where "EPERM \<equiv> 1"
abbreviation (input) ENOENT :: int where "ENOENT \<equiv> 2"
abbreviation (input) EIO :: int where "EIO \<equiv> 5"
abbreviation (input) EBADF :: int where "EBADF \<equiv> 9"
abbreviation (input) ENOMEM :: int where "ENOMEM \<equiv> 12"
abbreviation (input) EEXIST :: int where "EEXIST \<equiv> 17"
abbreviation (input) ENOTDIR :: int where "ENOTDIR \<equiv> 20"
abbreviation (input) EISDIR :: int where "EISDIR \<equiv> 21"
abbreviation (input) EINVAL :: int where "EINVAL \<equiv> 22"
abbreviation (input) EROFS :: int where "EROFS \<equiv> 30"
abbreviation (input) ENOTEMPTY :: int where "ENOTEMPTY \<equiv> 39"

text \<open>File types of \<^verbatim>\<open>sys/stat.h\<close>; \<^verbatim>\<open>mode_t\<close> is an unsigned 32-bit integer.\<close>

type_synonym mode_t = "32 word"

abbreviation (input) S_IFMT :: mode_t where "S_IFMT \<equiv> 0xF000"
abbreviation (input) S_IFDIR :: mode_t where "S_IFDIR \<equiv> 0x4000"
abbreviation (input) S_IFREG :: mode_t where "S_IFREG \<equiv> 0x8000"
abbreviation (input) S_IFLNK :: mode_t where "S_IFLNK \<equiv> 0xA000"

definition S_ISDIR :: "mode_t \<Rightarrow> bool" where
  "S_ISDIR m \<longleftrightarrow> m AND S_IFMT = S_IFDIR"

definition S_ISREG :: "mode_t \<Rightarrow> bool" where
  "S_ISREG m \<longleftrightarrow> m AND S_IFMT = S_IFREG"

definition S_ISLNK :: "mode_t \<Rightarrow> bool" where
  "S_ISLNK m \<longleftrightarrow> m AND S_IFMT = S_IFLNK"

text \<open>Access modes of \<^verbatim>\<open>fcntl.h\<close>.\<close>

abbreviation (input) O_ACCMODE :: "32 word" where "O_ACCMODE \<equiv> 3"
abbreviation (input) O_RDONLY :: "32 word" where "O_RDONLY \<equiv> 0"

text \<open>
  A handler returns a C \<^verbatim>\<open>int\<close>. Where the source returns a 64-bit id or a
  \<^verbatim>\<open>size_t\<close> from such a function, the value is reduced to 32 bits, two's complement.
\<close>

definition to_int :: "int \<Rightarrow> int" where
  "to_int x = (x + 2 ^ 31) mod 2 ^ 32 - 2 ^ 31"

text \<open>Arithmetic in \<^verbatim>\<open>size_t\<close> is unsigned, modulo \<open>2 ^ 64\<close>.\<close>

definition to_size_t :: "int \<Rightarrow> nat" where
  "to_size_t x = nat (x mod 2 ^ 64)"

section \<open>Data of the handlers\<close>

text \<open>
  \<^verbatim>\<open>struct timespec\<close>, and the metadata record \<^verbatim>\<open>PgMeta\<close> of one inode. \<^verbatim>\<open>PgMeta\<close> is
  declared in \<^verbatim>\<open>pgsql.h\<close>; its fields are the ones the handlers read and write.
\<close>

record timespec =
  tv_sec :: int
  tv_nsec :: int

record PgMeta =
  meta_size :: nat
  meta_mode :: mode_t
  meta_uid :: nat
  meta_gid :: nat
  meta_ctime :: timespec
  meta_mtime :: timespec
  meta_atime :: timespec
  meta_parent_id :: int

text \<open>The fields of \<^verbatim>\<open>struct stat\<close> that \<^verbatim>\<open>getattr\<close> and \<^verbatim>\<open>fgetattr\<close> fill.\<close>

record stat =
  st_ino :: int
  st_mode :: mode_t
  st_nlink :: nat
  st_uid :: nat
  st_gid :: nat
  st_size :: nat
  st_blksize :: nat
  st_blocks :: nat
  st_atime :: int
  st_mtime :: int
  st_ctime :: int

definition zero_stat :: stat where
  "zero_stat = \<lparr>st_ino = 0, st_mode = 0, st_nlink = 0, st_uid = 0, st_gid = 0, st_size = 0,
     st_blksize = 0, st_blocks = 0, st_atime = 0, st_mtime = 0, st_ctime = 0\<rparr>"

text \<open>\<^verbatim>\<open>struct statvfs\<close>, filled by \<^verbatim>\<open>statfs\<close>; its counters are unsigned 64-bit integers.\<close>

record statvfs =
  f_bsize :: nat
  f_frsize :: nat
  f_blocks :: nat
  f_bfree :: nat
  f_bavail :: nat
  f_files :: nat
  f_ffree :: nat
  f_favail :: nat
  f_fsid :: nat
  f_flag :: "64 word"
  f_namemax :: nat

definition zero_statvfs :: statvfs where
  "zero_statvfs = \<lparr>f_bsize = 0, f_frsize = 0, f_blocks = 0, f_bfree = 0, f_bavail = 0,
     f_files = 0, f_ffree = 0, f_favail = 0, f_fsid = 0, f_flag = 0, f_namemax = 0\<rparr>"

text \<open>\<^verbatim>\<open>struct fuse_file_info\<close>: the open flags and the file handle.\<close>

record fuse_file_info =
  flags :: "32 word"
  fh :: nat

text \<open>
  \<^verbatim>\<open>PgFuseData\<close>, the private data of the mount. The fields \<^verbatim>\<open>verbose\<close>,
  \<^verbatim>\<open>conninfo\<close> and \<^verbatim>\<open>mountpoint\<close> only feed \<^verbatim>\<open>syslog\<close> and are left out, as is
  the logging. The pool is part of the state below. A connection is a number; \<open>None\<close> is
  the null pointer.
\<close>

record PgFuseData =
  conn :: "nat option"
  read_only :: bool
  multi_threaded :: bool
  block_size :: nat

text \<open>
  What a handler reads from its surroundings: the caller's ids from \<^verbatim>\<open>fuse_get_context\<close>,
  the answer of \<^verbatim>\<open>gettimeofday\<close> (seconds and microseconds, \<open>None\<close> when it fails), and
  whether the n-th \<^verbatim>\<open>strdup\<close> of the handler finds memory.
\<close>

record env =
  ctx_uid :: nat
  ctx_gid :: nat
  timeofday :: "(int \<times> int) option"
  strdup_ok :: "nat \<Rightarrow> bool"

definition now :: "env \<Rightarrow> timespec" where
  "now e = (case timeofday e of
      None \<Rightarrow> \<lparr>tv_sec = 0, tv_nsec = 0\<rparr>
    | Some (sec, usec) \<Rightarrow> \<lparr>tv_sec = sec, tv_nsec = usec * 1000\<rparr>)"

section \<open>State: database, transaction, pool, caller's memory\<close>

datatype event = Acquire | Begin | Commit | Rollback | Release

text \<open>
  Modelled from the spec: \<^verbatim>\<open>pool.c\<close> (\<^verbatim>\<open>psql_pool_acquire\<close>, \<^verbatim>\<open>psql_pool_release\<close>) is
  not among the sources. The pool is a bag of connections; acquire returns one or fails,
  release returns it, and releasing a connection that is in the bag is a fault.
\<close>

record PgConnPool =
  avail :: "nat list"

definition psql_pool_acquire :: "PgConnPool \<Rightarrow> nat option \<times> PgConnPool" where
  "psql_pool_acquire p = (case avail p of
      [] \<Rightarrow> (None, p)
    | c # cs \<Rightarrow> (Some c, p\<lparr>avail := cs\<rparr>))"

definition psql_pool_release :: "PgConnPool \<Rightarrow> nat \<Rightarrow> int \<times> PgConnPool" where
  "psql_pool_release p c =
     (if c \<in> set (avail p) then (- 1, p) else (0, p\<lparr>avail := c # avail p\<rparr>))"

text \<open>
  The state a handler runs in. \<open>committed\<close> is the durable database, \<open>working\<close> the
  database as the open transaction sees it, \<open>in_tx\<close> whether a transaction is open,
  \<open>trace\<close> the connection and transaction events so far. The remaining fields are the
  caller's memory that handlers write through pointers: the file info, the stat buffer,
  the byte buffer of \<^verbatim>\<open>read\<close> and \<^verbatim>\<open>readlink\<close>, the names given to the directory
  filler, the buffer of \<^verbatim>\<open>statfs\<close>. \<open>sigfpe\<close> is set when the process dies of a division by zero,
  \<open>sigabrt\<close> when the C library aborts it for freeing a block twice; the handler then
  does not return, and the value of the result is of no meaning.
\<close>

record 'db world =
  committed :: 'db
  working :: 'db
  in_tx :: bool
  pool :: PgConnPool
  trace :: "event list"
  fi :: fuse_file_info
  stbuf :: stat
  buf :: string
  dirbuf :: "string list"
  vfsbuf :: statvfs
  sigfpe :: bool
  sigabrt :: bool

type_synonym 'db handler = "'db world \<Rightarrow> int \<times> 'db world"

definition ret :: "int \<Rightarrow> 'db handler" where
  "ret r w = (r, w)"

subsection \<open>Pool helpers and the macros ACQUIRE and RELEASE\<close>

definition psql_acquire :: "PgFuseData \<Rightarrow> 'db world \<Rightarrow> nat option \<times> 'db world" where
  "psql_acquire data w =
     (if \<not> multi_threaded data then (conn data, w)
      else case psql_pool_acquire (pool w) of (c, p) \<Rightarrow> (c, w\<lparr>pool := p\<rparr>))"

definition psql_release :: "PgFuseData \<Rightarrow> nat \<Rightarrow> 'db world \<Rightarrow> int \<times> 'db world" where
  "psql_release data c w =
     (if \<not> multi_threaded data then (0, w)
      else case psql_pool_release (pool w) c of (r, p) \<Rightarrow> (r, w\<lparr>pool := p\<rparr>))"

text \<open>
  The macros take the rest of the handler as their last argument: ACQUIRE and RELEASE
  return \<open>-EIO\<close> from the handler when the pool fails, and go on otherwise.
\<close>

definition ACQUIRE :: "PgFuseData \<Rightarrow> (nat \<Rightarrow> 'db handler) \<Rightarrow> 'db handler" where
  "ACQUIRE data k w = (case psql_acquire data w of
      (None, w1) \<Rightarrow> (- EIO, w1)
    | (Some c, w1) \<Rightarrow> k c (w1\<lparr>trace := trace w1 @ [Acquire]\<rparr>))"

definition RELEASE :: "PgFuseData \<Rightarrow> nat \<Rightarrow> 'db handler \<Rightarrow> 'db handler" where
  "RELEASE data c k w = (case psql_release data c w of
      (r, w1) \<Rightarrow> (let w2 = w1\<lparr>trace := trace w1 @ [Release]\<rparr>
                   in if r < 0 then (- EIO, w2) else k w2))"

text \<open>
  Modelled from the spec: the macros PSQL_BEGIN, PSQL_COMMIT and PSQL_ROLLBACK are
  declared in \<^verbatim>\<open>pgsql.h\<close>, which is not among the sources. Begin opens a transaction on
  the durable state, commit makes the transaction's state durable, and a rolled-back
  transaction leaves no partial state.
\<close>

definition PSQL_BEGIN :: "nat \<Rightarrow> 'db handler \<Rightarrow> 'db handler" where
  "PSQL_BEGIN c k w =
     k (w\<lparr>working := committed w, in_tx := True, trace := trace w @ [Begin]\<rparr>)"

definition PSQL_COMMIT :: "nat \<Rightarrow> 'db handler \<Rightarrow> 'db handler" where
  "PSQL_COMMIT c k w =
     k (w\<lparr>committed := working w, in_tx := False, trace := trace w @ [Commit]\<rparr>)"

definition PSQL_ROLLBACK :: "nat \<Rightarrow> 'db handler \<Rightarrow> 'db handler" where
  "PSQL_ROLLBACK c k w =
     k (w\<lparr>working := committed w, in_tx := False, trace := trace w @ [Rollback]\<rparr>)"

text \<open>The recurring exit \<^verbatim>\<open>PSQL_ROLLBACK( conn ); RELEASE( conn ); return r;\<close>\<close>

definition rollback_return :: "PgFuseData \<Rightarrow> nat \<Rightarrow> int \<Rightarrow> 'db handler" where
  "rollback_return data c r = PSQL_ROLLBACK c (RELEASE data c (ret r))"

text \<open>and the exit \<^verbatim>\<open>PSQL_COMMIT( conn ); RELEASE( conn ); return r;\<close>\<close>

definition commit_return :: "PgFuseData \<Rightarrow> nat \<Rightarrow> int \<Rightarrow> 'db handler" where
  "commit_return data c r = PSQL_COMMIT c (RELEASE data c (ret r))"

section \<open>The database layer\<close>

text \<open>
  The functions of \<^verbatim>\<open>pgsql.h\<close> that the handlers call. Their code is not among the
  sources, so the handlers take them as a parameter: a record of functions on a database
  state of any type. A function that reads returns its result code and what it stored
  through its pointer argument; a function that writes returns its result code and the
  new database state. The connection argument is the state they work on, and the
  \<^verbatim>\<open>verbose\<close> argument is left out.
\<close>

record 'db psql =
  psql_read_meta :: "'db \<Rightarrow> int \<Rightarrow> string \<Rightarrow> int \<times> PgMeta"
  psql_read_meta_from_path :: "'db \<Rightarrow> string \<Rightarrow> int \<times> PgMeta"
  psql_write_meta :: "'db \<Rightarrow> int \<Rightarrow> string \<Rightarrow> PgMeta \<Rightarrow> int \<times> 'db"
  psql_create_file :: "'db \<Rightarrow> int \<Rightarrow> string \<Rightarrow> string \<Rightarrow> PgMeta \<Rightarrow> int \<times> 'db"
  psql_create_dir :: "'db \<Rightarrow> int \<Rightarrow> string \<Rightarrow> string \<Rightarrow> PgMeta \<Rightarrow> int \<times> 'db"
  psql_delete_file :: "'db \<Rightarrow> int \<Rightarrow> string \<Rightarrow> int \<times> 'db"
  psql_delete_dir :: "'db \<Rightarrow> int \<Rightarrow> string \<Rightarrow> int \<times> 'db"
  psql_readdir :: "'db \<Rightarrow> int \<Rightarrow> int \<times> string list"
  psql_read_buf :: "'db \<Rightarrow> nat \<Rightarrow> int \<Rightarrow> string \<Rightarrow> int \<Rightarrow> nat \<Rightarrow> int \<times> string"
  psql_write_buf :: "'db \<Rightarrow> nat \<Rightarrow> int \<Rightarrow> string \<Rightarrow> string \<Rightarrow> int \<Rightarrow> nat \<Rightarrow> int \<times> 'db"
  psql_truncate :: "'db \<Rightarrow> nat \<Rightarrow> int \<Rightarrow> string \<Rightarrow> int \<Rightarrow> int \<times> 'db"
  psql_rename :: "'db \<Rightarrow> int \<Rightarrow> int \<Rightarrow> int \<Rightarrow> string \<Rightarrow> string \<Rightarrow> string \<Rightarrow> int \<times> 'db"
  psql_get_tablespace_locations :: "'db \<Rightarrow> nat \<Rightarrow> int \<times> string list"
  psql_get_fs_blocks_used :: "'db \<Rightarrow> int"
  psql_get_fs_files_used :: "'db \<Rightarrow> int"

section \<open>Strings\<close>

text \<open>
  A C string is the list of its characters before the terminating NUL, so
  \<^verbatim>\<open>strlen\<close> is \<open>length\<close> and \<^verbatim>\<open>strcmp( a, b ) == 0\<close> is \<open>a = b\<close>.
  \<^verbatim>\<open>dirname\<close> and \<^verbatim>\<open>basename\<close> are the functions of \<^verbatim>\<open>libgen.h\<close>.
\<close>

abbreviation (input) slash :: char where "slash \<equiv> CHR ''/''"

definition strip_slashes :: "string \<Rightarrow> string" where
  "strip_slashes s = rev (dropWhile (\<lambda>c. c = slash) (rev s))"

definition last_component :: "string \<Rightarrow> string" where
  "last_component s = rev (takeWhile (\<lambda>c. c \<noteq> slash) (rev s))"

definition cut_component :: "string \<Rightarrow> string" where
  "cut_component s = rev (dropWhile (\<lambda>c. c \<noteq> slash) (rev s))"

definition dirname :: "string \<Rightarrow> string" where
  "dirname p =
     (let s = strip_slashes p in
      if p = [] then ''.''
      else if s = [] then ''/''
      else if slash \<notin> set s then ''.''
      else let d = strip_slashes (cut_component s) in if d = [] then ''/'' else d)"

definition basename :: "string \<Rightarrow> string" where
  "basename p =
     (let s = strip_slashes p in
      if p = [] then ''.''
      else if s = [] then ''/''
      else last_component s)"

text \<open>Storing bytes at the start of a buffer.\<close>

definition store :: "string \<Rightarrow> string \<Rightarrow> string" where
  "store bytes b = bytes @ drop (length bytes) b"

section \<open>The handlers\<close>

subsection \<open>Attributes\<close>

text \<open>
  The block count is computed in \<^verbatim>\<open>size_t\<close>; a block size of zero is a division by
  zero, which kills the process.
\<close>

definition fill_stat :: "PgFuseData \<Rightarrow> int \<Rightarrow> PgMeta \<Rightarrow> stat \<Rightarrow> stat" where
  "fill_stat data inode_id meta st = st
     \<lparr>st_ino := inode_id,
      st_mode := meta_mode meta,
      st_size := meta_size meta,
      st_blksize := block_size data,
      st_blocks := (meta_size meta + block_size data - 1) mod 2 ^ 64 div block_size data,
      st_nlink := 1,
      st_uid := meta_uid meta,
      st_gid := meta_gid meta\<rparr>"

definition pgfuse_fgetattr :: "'db psql \<Rightarrow> PgFuseData \<Rightarrow> string \<Rightarrow> 'db handler" where
  "pgfuse_fgetattr q data path =
     ACQUIRE data (\<lambda>conn. PSQL_BEGIN conn (\<lambda>w0.
       let w = w0\<lparr>stbuf := zero_stat\<rparr> in
       case psql_read_meta q (working w) (int (fh (fi w))) path of (inode_id, meta) \<Rightarrow>
       if inode_id < 0 then rollback_return data conn (to_int inode_id) w
       else if block_size data = 0 then ret 0 (w\<lparr>sigfpe := True\<rparr>)
       else commit_return data conn 0 (w\<lparr>stbuf := fill_stat data inode_id meta (stbuf w)\<rparr>)))"

definition pgfuse_getattr :: "'db psql \<Rightarrow> PgFuseData \<Rightarrow> string \<Rightarrow> 'db handler" where
  "pgfuse_getattr q data path =
     ACQUIRE data (\<lambda>conn. PSQL_BEGIN conn (\<lambda>w0.
       let w = w0\<lparr>stbuf := zero_stat\<rparr> in
       case psql_read_meta_from_path q (working w) path of (inode_id, meta) \<Rightarrow>
       if inode_id < 0 then rollback_return data conn (to_int inode_id) w
       else if block_size data = 0 then ret 0 (w\<lparr>sigfpe := True\<rparr>)
       else commit_return data conn 0
              (w\<lparr>stbuf := (fill_stat data inode_id meta (stbuf w))
                    \<lparr>st_atime := tv_sec (meta_atime meta),
                     st_mtime := tv_sec (meta_mtime meta),
                     st_ctime := tv_sec (meta_ctime meta)\<rparr>\<rparr>)))"

definition pgfuse_access :: "PgFuseData \<Rightarrow> string \<Rightarrow> int \<Rightarrow> 'db handler" where
  "pgfuse_access data path amode = ret 0"

subsection \<open>Create and open\<close>

text \<open>
  \<^verbatim>\<open>create\<close> frees its first copy of the path before it makes the second one. When the
  second \<^verbatim>\<open>strdup\<close> fails, it frees \<^verbatim>\<open>parent_path\<close>, which \<^verbatim>\<open>dirname\<close> returned and which
  is that first copy: the block is freed twice and the process is aborted, inside the open
  transaction. \<^verbatim>\<open>mkdir\<close> does the same.
\<close>

definition pgfuse_create ::
  "'db psql \<Rightarrow> PgFuseData \<Rightarrow> env \<Rightarrow> string \<Rightarrow> mode_t \<Rightarrow> 'db handler" where
  "pgfuse_create q data e path mode =
     ACQUIRE data (\<lambda>conn. PSQL_BEGIN conn (\<lambda>w.
       if read_only data then rollback_return data conn (- EROFS) w
       else case psql_read_meta_from_path q (working w) path of (inode_id, meta) \<Rightarrow>
       if inode_id < 0 \<and> inode_id \<noteq> - ENOENT then rollback_return data conn (to_int inode_id) w
       else if inode_id \<ge> 0 then
         (if S_ISDIR (meta_mode meta) then rollback_return data conn (- EISDIR) w
          else rollback_return data conn (- EEXIST) w)
       else if \<not> strdup_ok e 0 then rollback_return data conn (- ENOMEM) w
       else let parent_path = dirname path in
       case psql_read_meta_from_path q (working w) parent_path of (parent_id, meta) \<Rightarrow>
       if parent_id < 0 then rollback_return data conn (to_int parent_id) w
       else if \<not> S_ISDIR (meta_mode meta) then rollback_return data conn (- ENOENT) w
       else if \<not> strdup_ok e 1 then ret 0 (w\<lparr>sigabrt := True\<rparr>)
       else let new_file = basename path;
                meta = meta\<lparr>meta_size := 0, meta_mode := mode,
                          meta_uid := ctx_uid e, meta_gid := ctx_gid e,
                          meta_ctime := now e, meta_mtime := now e, meta_atime := now e\<rparr> in
       case psql_create_file q (working w) parent_id path new_file meta of (res, db1) \<Rightarrow>
       let w1 = w\<lparr>working := db1\<rparr> in
       if res < 0 then rollback_return data conn (to_int res) w1
       else case psql_read_meta_from_path q (working w1) path of (inode_id, meta) \<Rightarrow>
       if inode_id < 0 then rollback_return data conn (to_int res) w1
       else commit_return data conn (to_int res) (w1\<lparr>fi := (fi w1)\<lparr>fh := nat inode_id\<rparr>\<rparr>)))"

definition pgfuse_open :: "'db psql \<Rightarrow> PgFuseData \<Rightarrow> string \<Rightarrow> 'db handler" where
  "pgfuse_open q data path =
     ACQUIRE data (\<lambda>conn. PSQL_BEGIN conn (\<lambda>w.
       case psql_read_meta_from_path q (working w) path of (inode_id, meta) \<Rightarrow>
       if inode_id < 0 then rollback_return data conn (to_int inode_id) w
       else if S_ISDIR (meta_mode meta) then rollback_return data conn (- EISDIR) w
       else if read_only data \<and> flags (fi w) AND O_ACCMODE \<noteq> O_RDONLY
         then rollback_return data conn (- EROFS) w
       else case psql_write_meta q (working w) inode_id path meta of (res, db1) \<Rightarrow>
       let w1 = w\<lparr>working := db1\<rparr> in
       if res < 0 then rollback_return data conn (to_int res) w1
       else commit_return data conn 0 (w1\<lparr>fi := (fi w1)\<lparr>fh := nat inode_id\<rparr>\<rparr>)))"

subsection \<open>Directories\<close>

definition pgfuse_opendir :: "string \<Rightarrow> 'db handler" where
  "pgfuse_opendir path = ret 0"

text \<open>In \<^verbatim>\<open>readdir\<close> the inode_id is held in an \<^verbatim>\<open>int\<close>.\<close>

definition pgfuse_readdir :: "'db psql \<Rightarrow> PgFuseData \<Rightarrow> string \<Rightarrow> 'db handler" where
  "pgfuse_readdir q data path =
     ACQUIRE data (\<lambda>conn. PSQL_BEGIN conn (\<lambda>w0.
       let w = w0\<lparr>dirbuf := dirbuf w0 @ [''.'', ''..'']\<rparr> in
       case psql_read_meta_from_path q (working w) path of (id64, meta) \<Rightarrow>
       let inode_id = to_int id64 in
       if inode_id < 0 then rollback_return data conn inode_id w
       else case psql_readdir q (working w) inode_id of (res, names) \<Rightarrow>
       let w1 = w\<lparr>dirbuf := dirbuf w @ names\<rparr> in
       if res < 0 then rollback_return data conn res w1
       else commit_return data conn 0 w1))"

definition pgfuse_releasedir :: "string \<Rightarrow> 'db handler" where
  "pgfuse_releasedir path = ret 0"

definition pgfuse_fsyncdir :: "string \<Rightarrow> int \<Rightarrow> 'db handler" where
  "pgfuse_fsyncdir path datasync = ret 0"

definition pgfuse_mkdir ::
  "'db psql \<Rightarrow> PgFuseData \<Rightarrow> env \<Rightarrow> string \<Rightarrow> mode_t \<Rightarrow> 'db handler" where
  "pgfuse_mkdir q data e path mode =
     ACQUIRE data (\<lambda>conn. PSQL_BEGIN conn (\<lambda>w.
       if read_only data then rollback_return data conn (- EROFS) w
       else if \<not> strdup_ok e 0 then rollback_return data conn (- ENOMEM) w
       else let parent_path = dirname path in
       case psql_read_meta_from_path q (working w) parent_path of (parent_id, meta) \<Rightarrow>
       if parent_id < 0 then rollback_return data conn (to_int parent_id) w
       else if \<not> S_ISDIR (meta_mode meta) then rollback_return data conn (- ENOENT) w
       else if \<not> strdup_ok e 1 then ret 0 (w\<lparr>sigabrt := True\<rparr>)
       else let new_dir = basename path;
                meta = meta\<lparr>meta_size := 0, meta_mode := mode OR S_IFDIR,
                          meta_uid := ctx_uid e, meta_gid := ctx_gid e,
                          meta_ctime := now e, meta_mtime := now e, meta_atime := now e\<rparr> in
       case psql_create_dir q (working w) parent_id path new_dir meta of (res, db1) \<Rightarrow>
       let w1 = w\<lparr>working := db1\<rparr> in
       if res < 0 then rollback_return data conn res w1
       else commit_return data conn 0 w1))"

definition pgfuse_rmdir :: "'db psql \<Rightarrow> PgFuseData \<Rightarrow> string \<Rightarrow> 'db handler" where
  "pgfuse_rmdir q data path =
     ACQUIRE data (\<lambda>conn. PSQL_BEGIN conn (\<lambda>w.
       case psql_read_meta_from_path q (working w) path of (inode_id, meta) \<Rightarrow>
       if inode_id < 0 then rollback_return data conn (to_int inode_id) w
       else if \<not> S_ISDIR (meta_mode meta) then rollback_return data conn (- ENOTDIR) w
       else if read_only data then rollback_return data conn (- EROFS) w
       else case psql_delete_dir q (working w) inode_id path of (res, db1) \<Rightarrow>
       let w1 = w\<lparr>working := db1\<rparr> in
       if res < 0 then rollback_return data conn res w1
       else commit_return data conn 0 w1))"

definition pgfuse_unlink :: "'db psql \<Rightarrow> PgFuseData \<Rightarrow> string \<Rightarrow> 'db handler" where
  "pgfuse_unlink q data path =
     ACQUIRE data (\<lambda>conn. PSQL_BEGIN conn (\<lambda>w.
       case psql_read_meta_from_path q (working w) path of (inode_id, meta) \<Rightarrow>
       if inode_id < 0 then rollback_return data conn (to_int inode_id) w
       else if S_ISDIR (meta_mode meta) then rollback_return data conn (- EPERM) w
       else if read_only data then rollback_return data conn (- EROFS) w
       else case psql_delete_file q (working w) inode_id path of (res, db1) \<Rightarrow>
       let w1 = w\<lparr>working := db1\<rparr> in
       if res < 0 then rollback_return data conn res w1
       else commit_return data conn 0 w1))"

subsection \<open>Flush, fsync, release\<close>

definition pgfuse_flush :: "string \<Rightarrow> 'db handler" where
  "pgfuse_flush path = ret 0"

definition pgfuse_fsync :: "PgFuseData \<Rightarrow> string \<Rightarrow> int \<Rightarrow> 'db handler" where
  "pgfuse_fsync data path isdatasync w =
     (if read_only data then ret (- EROFS) w
      else if fh (fi w) = 0 then ret (- EBADF) w
      else ret 0 w)"

definition pgfuse_release :: "PgFuseData \<Rightarrow> string \<Rightarrow> 'db handler" where
  "pgfuse_release data path = ret 0"

subsection \<open>Reading and writing\<close>

text \<open>
  In \<^verbatim>\<open>write\<close> the sum \<^verbatim>\<open>offset + size\<close> is computed in \<^verbatim>\<open>size_t\<close>, the result of
  the block engine is an \<^verbatim>\<open>int\<close> that is compared with the \<^verbatim>\<open>size_t\<close> \<^verbatim>\<open>size\<close>, and
  \<^verbatim>\<open>size\<close> is returned as an \<^verbatim>\<open>int\<close>. The bytes to write are \<open>wbuf\<close>, their number is \<open>sz\<close>.
\<close>

definition pgfuse_write ::
  "'db psql \<Rightarrow> PgFuseData \<Rightarrow> string \<Rightarrow> string \<Rightarrow> nat \<Rightarrow> int \<Rightarrow> 'db handler" where
  "pgfuse_write q data path wbuf sz offset =
     ACQUIRE data (\<lambda>conn. PSQL_BEGIN conn (\<lambda>w.
       if fh (fi w) = 0 then rollback_return data conn (- EBADF) w
       else if read_only data then rollback_return data conn (- EBADF) w
       else case psql_read_meta q (working w) (int (fh (fi w))) path of (tmp, meta0) \<Rightarrow>
       if tmp < 0 then rollback_return data conn (to_int tmp) w
       else let meta = (if to_size_t (offset + int sz) > meta_size meta0
                        then meta0\<lparr>meta_size := to_size_t (offset + int sz)\<rparr> else meta0) in
       case psql_write_buf q (working w) (block_size data) (int (fh (fi w))) path wbuf offset sz
         of (res, db1) \<Rightarrow>
       let w1 = w\<lparr>working := db1\<rparr> in
       if res < 0 then rollback_return data conn res w1
       else if to_size_t res \<noteq> sz then rollback_return data conn (- EIO) w1
       else case psql_write_meta q (working w1) (int (fh (fi w1))) path meta of (res, db2) \<Rightarrow>
       let w2 = w1\<lparr>working := db2\<rparr> in
       if res < 0 then rollback_return data conn res w2
       else commit_return data conn (to_int (int sz)) w2))"

definition pgfuse_read ::
  "'db psql \<Rightarrow> PgFuseData \<Rightarrow> string \<Rightarrow> nat \<Rightarrow> int \<Rightarrow> 'db handler" where
  "pgfuse_read q data path sz offset =
     ACQUIRE data (\<lambda>conn. PSQL_BEGIN conn (\<lambda>w.
       if fh (fi w) = 0 then rollback_return data conn (- EBADF) w
       else case psql_read_buf q (working w) (block_size data) (int (fh (fi w))) path offset sz
         of (res, bytes) \<Rightarrow>
       let w1 = w\<lparr>buf := store bytes (buf w)\<rparr> in
       if res < 0 then rollback_return data conn res w1
       else commit_return data conn res w1))"

definition pgfuse_truncate ::
  "'db psql \<Rightarrow> PgFuseData \<Rightarrow> string \<Rightarrow> int \<Rightarrow> 'db handler" where
  "pgfuse_truncate q data path offset =
     ACQUIRE data (\<lambda>conn. PSQL_BEGIN conn (\<lambda>w.
       case psql_read_meta_from_path q (working w) path of (inode_id, meta) \<Rightarrow>
       if inode_id < 0 then rollback_return data conn (to_int inode_id) w
       else if S_ISDIR (meta_mode meta) then rollback_return data conn (- EISDIR) w
       else if read_only data then rollback_return data conn (- EROFS) w
       else case psql_truncate q (working w) (block_size data) inode_id path offset of (res, db1) \<Rightarrow>
       let w1 = w\<lparr>working := db1\<rparr> in
       if res < 0 then rollback_return data conn res w1
       else case psql_write_meta q (working w1) inode_id path (meta\<lparr>meta_size := to_size_t offset\<rparr>)
         of (res, db2) \<Rightarrow>
       let w2 = w1\<lparr>working := db2\<rparr> in
       if res < 0 then rollback_return data conn res w2
       else commit_return data conn 0 w2))"

definition pgfuse_ftruncate ::
  "'db psql \<Rightarrow> PgFuseData \<Rightarrow> string \<Rightarrow> int \<Rightarrow> 'db handler" where
  "pgfuse_ftruncate q data path offset =
     ACQUIRE data (\<lambda>conn. PSQL_BEGIN conn (\<lambda>w.
       if fh (fi w) = 0 then rollback_return data conn (- EBADF) w
       else case psql_read_meta q (working w) (int (fh (fi w))) path of (inode_id, meta) \<Rightarrow>
       if inode_id < 0 then rollback_return data conn (to_int inode_id) w
       else if read_only data then rollback_return data conn (- EROFS) w
       else case psql_truncate q (working w) (block_size data) (int (fh (fi w))) path offset
         of (res, db1) \<Rightarrow>
       let w1 = w\<lparr>working := db1\<rparr> in
       if res < 0 then rollback_return data conn res w1
       else case psql_write_meta q (working w1) (int (fh (fi w1))) path
                  (meta\<lparr>meta_size := to_size_t offset\<rparr>) of (res, db2) \<Rightarrow>
       let w2 = w1\<lparr>working := db2\<rparr> in
       if res < 0 then rollback_return data conn res w2
       else commit_return data conn 0 w2))"

subsection \<open>Metadata\<close>

definition pgfuse_chmod ::
  "'db psql \<Rightarrow> PgFuseData \<Rightarrow> string \<Rightarrow> mode_t \<Rightarrow> 'db handler" where
  "pgfuse_chmod q data path mode =
     ACQUIRE data (\<lambda>conn. PSQL_BEGIN conn (\<lambda>w.
       case psql_read_meta_from_path q (working w) path of (inode_id, meta) \<Rightarrow>
       if inode_id < 0 then rollback_return data conn (to_int inode_id) w
       else if read_only data then rollback_return data conn (- EROFS) w
       else case psql_write_meta q (working w) inode_id path (meta\<lparr>meta_mode := mode\<rparr>)
         of (res, db1) \<Rightarrow>
       let w1 = w\<lparr>working := db1\<rparr> in
       if res < 0 then rollback_return data conn res w1
       else commit_return data conn 0 w1))"

definition pgfuse_chown ::
  "'db psql \<Rightarrow> PgFuseData \<Rightarrow> string \<Rightarrow> nat \<Rightarrow> nat \<Rightarrow> 'db handler" where
  "pgfuse_chown q data path uid gid =
     ACQUIRE data (\<lambda>conn. PSQL_BEGIN conn (\<lambda>w.
       case psql_read_meta_from_path q (working w) path of (inode_id, meta) \<Rightarrow>
       if inode_id < 0 then rollback_return data conn (to_int inode_id) w
       else if read_only data then rollback_return data conn (- EROFS) w
       else case psql_write_meta q (working w) inode_id path
                  (meta\<lparr>meta_uid := uid, meta_gid := gid\<rparr>) of (res, db1) \<Rightarrow>
       let w1 = w\<lparr>working := db1\<rparr> in
       if res < 0 then rollback_return data conn res w1
       else commit_return data conn res w1))"

definition pgfuse_utimens ::
  "'db psql \<Rightarrow> PgFuseData \<Rightarrow> string \<Rightarrow> timespec \<Rightarrow> timespec \<Rightarrow> 'db handler" where
  "pgfuse_utimens q data path tv0 tv1 =
     ACQUIRE data (\<lambda>conn. PSQL_BEGIN conn (\<lambda>w.
       case psql_read_meta_from_path q (working w) path of (inode_id, meta) \<Rightarrow>
       if inode_id < 0 then rollback_return data conn (to_int inode_id) w
       else case psql_write_meta q (working w) inode_id path
                  (meta\<lparr>meta_atime := tv0, meta_mtime := tv1\<rparr>) of (res, db1) \<Rightarrow>
       let w1 = w\<lparr>working := db1\<rparr> in
       if res < 0 then rollback_return data conn res w1
       else commit_return data conn 0 w1))"

subsection \<open>Symbolic links and rename\<close>

definition pgfuse_symlink ::
  "'db psql \<Rightarrow> PgFuseData \<Rightarrow> env \<Rightarrow> string \<Rightarrow> string \<Rightarrow> 'db handler" where
  "pgfuse_symlink q data e from to =
     ACQUIRE data (\<lambda>conn. PSQL_BEGIN conn (\<lambda>w.
       if \<not> strdup_ok e 0 then rollback_return data conn (- ENOMEM) w
       else let parent_path = dirname to in
       case psql_read_meta_from_path q (working w) parent_path of (parent_id, meta) \<Rightarrow>
       if parent_id < 0 then rollback_return data conn (to_int parent_id) w
       else if \<not> S_ISDIR (meta_mode meta) then rollback_return data conn (- ENOENT) w
       else if \<not> strdup_ok e 1 then rollback_return data conn (- ENOMEM) w
       else if read_only data then rollback_return data conn (- EROFS) w
       else let symlink = basename to;
                meta = meta\<lparr>meta_size := length from, meta_mode := 0x1FF OR S_IFLNK,
                          meta_uid := ctx_uid e, meta_gid := ctx_gid e,
                          meta_ctime := now e, meta_mtime := now e, meta_atime := now e\<rparr> in
       case psql_create_file q (working w) parent_id to symlink meta of (res, db1) \<Rightarrow>
       let w1 = w\<lparr>working := db1\<rparr> in
       if res < 0 then rollback_return data conn res w1
       else case psql_read_meta_from_path q (working w1) to of (inode_id, meta) \<Rightarrow>
       if inode_id < 0 then rollback_return data conn (to_int inode_id) w1
       else case psql_write_buf q (working w1) (block_size data) inode_id to from 0 (length from)
         of (res, db2) \<Rightarrow>
       let w2 = w1\<lparr>working := db2\<rparr> in
       if res < 0 then rollback_return data conn res w2
       else if to_size_t res \<noteq> length from then rollback_return data conn (- EIO) w2
       else commit_return data conn 0 w2))"

text \<open>
  \<^verbatim>\<open>rename\<close> returns from its first two lookups and from the case of an existing
  destination without a rollback and without releasing the connection, and it commits
  whatever \<^verbatim>\<open>psql_rename\<close> answers.
\<close>

definition pgfuse_rename ::
  "'db psql \<Rightarrow> PgFuseData \<Rightarrow> env \<Rightarrow> string \<Rightarrow> string \<Rightarrow> 'db handler" where
  "pgfuse_rename q data e from to =
     ACQUIRE data (\<lambda>conn. PSQL_BEGIN conn (\<lambda>w.
       case psql_read_meta_from_path q (working w) from of (from_id, from_meta) \<Rightarrow>
       if from_id < 0 then ret (to_int from_id) w
       else case psql_read_meta_from_path q (working w) to of (to_id, to_meta) \<Rightarrow>
       if to_id < 0 \<and> to_id \<noteq> - ENOENT then ret (to_int to_id) w
       else if to_id > 0 then
         (if S_ISREG (meta_mode to_meta) then
            (if from = to then ret 0 w else ret (- EEXIST) w)
          else ret (- EINVAL) w)
       else if \<not> strdup_ok e 0 then rollback_return data conn (- ENOMEM) w
       else let parent_path = dirname to in
       case psql_read_meta_from_path q (working w) parent_path of (to_parent_id, to_parent_meta) \<Rightarrow>
       if to_parent_id < 0 then rollback_return data conn (to_int to_parent_id) w
       else if \<not> S_ISDIR (meta_mode to_parent_meta) then rollback_return data conn (- EIO) w
       else if \<not> strdup_ok e 1 then rollback_return data conn (- ENOMEM) w
       else if read_only data then rollback_return data conn (- EROFS) w
       else let rename_to = basename to in
       case psql_rename q (working w) from_id (meta_parent_id from_meta) to_parent_id rename_to
              from to of (res, db1) \<Rightarrow>
       commit_return data conn res (w\<lparr>working := db1\<rparr>)))"

text \<open>
  \<^verbatim>\<open>readlink\<close> gets the caller's buffer (the field \<open>buf\<close> of the state) and its size \<open>sz\<close>.
  The comparison with \<^verbatim>\<open>meta.size + 1\<close> is in \<^verbatim>\<open>size_t\<close>.
\<close>

definition pgfuse_readlink ::
  "'db psql \<Rightarrow> PgFuseData \<Rightarrow> string \<Rightarrow> nat \<Rightarrow> 'db handler" where
  "pgfuse_readlink q data path sz =
     ACQUIRE data (\<lambda>conn. PSQL_BEGIN conn (\<lambda>w.
       case psql_read_meta_from_path q (working w) path of (inode_id, meta) \<Rightarrow>
       if inode_id < 0 then rollback_return data conn (to_int inode_id) w
       else if \<not> S_ISLNK (meta_mode meta) then rollback_return data conn (- ENOENT) w
       else if sz < (meta_size meta + 1) mod 2 ^ 64 then rollback_return data conn (- ENOMEM) w
       else case psql_read_buf q (working w) (block_size data) inode_id path 0 (meta_size meta)
         of (res, bytes) \<Rightarrow>
       let w1 = w\<lparr>buf := store bytes (buf w)\<rparr> in
       if res < 0 then rollback_return data conn res w1
       else commit_return data conn 0 (w1\<lparr>buf := (buf w1)[meta_size meta := CHR 0x00]\<rparr>)))"

subsection \<open>File system statistics\<close>

text \<open>
  What \<^verbatim>\<open>statfs\<close> asks the host: \<^verbatim>\<open>realpath\<close>, the mount directories that
  \<^verbatim>\<open>getmntent_r\<close> delivers (\<open>None\<close> is an entry without directory), and the system call
  \<^verbatim>\<open>statfs\<close> with its result code. The two constants are those of \<^verbatim>\<open>config.h\<close>, which is
  not among the sources.
\<close>

record host_statfs =
  fs_bfree :: nat
  fs_bavail :: nat
  fs_frsize :: int

record host =
  realpath :: "string \<Rightarrow> string option"
  mtab :: "string option list"
  sys_statfs :: "string \<Rightarrow> int \<times> host_statfs"
  MAX_TABLESPACE_OIDS :: nat
  MAX_FILENAME_LENGTH :: nat

abbreviation (input) INT64_MAX :: int where "INT64_MAX \<equiv> 2 ^ 63 - 1"
abbreviation (input) ST_RDONLY :: "64 word" where "ST_RDONLY \<equiv> 1"

definition to_int64 :: "int \<Rightarrow> int" where
  "to_int64 x = (x + 2 ^ 63) mod 2 ^ 64 - 2 ^ 63"

text \<open>
  The loop over the mount entries. It ends with the two counters, or with the value
  that \<^verbatim>\<open>statfs\<close> returns from inside the loop. \<open>k\<close> counts the entries; the k-th entry
  calls \<^verbatim>\<open>strdup\<close> at most once. The products are computed in unsigned 64 bits.
\<close>

datatype scan = Returned int | Scanned int int

fun scan_mounts ::
  "host \<Rightarrow> env \<Rightarrow> PgFuseData \<Rightarrow> string list \<Rightarrow> nat \<Rightarrow> string option list \<Rightarrow> int \<Rightarrow> int \<Rightarrow> scan"
where
  "scan_mounts h e data location k [] blocks_free blocks_avail = Scanned blocks_free blocks_avail"
| "scan_mounts h e data location k (None # ms) blocks_free blocks_avail =
     scan_mounts h e data location (Suc k) ms blocks_free blocks_avail"
| "scan_mounts h e data location k (Some mnt_dir # ms) blocks_free blocks_avail =
     (let matched = (mnt_dir \<noteq> [] \<and>
            list_ex (\<lambda>l. take (length mnt_dir) l = mnt_dir) location);
          blocks_free = (if matched then INT64_MAX else blocks_free);
          blocks_avail = (if matched then INT64_MAX else blocks_avail)
      in if \<not> matched \<or> \<not> strdup_ok e k
         then scan_mounts h e data location (Suc k) ms blocks_free blocks_avail
         else case sys_statfs h mnt_dir of (res, fs) \<Rightarrow>
           if res < 0 then Returned res
           else
             let free_bytes = to_size_t (int (fs_bfree fs) * fs_frsize fs);
                 avail_bytes = to_size_t (int (fs_bavail fs) * fs_frsize fs);
                 blocks_free =
                   (if free_bytes < to_size_t (blocks_free * int (block_size data))
                    then to_int64 (int (free_bytes div block_size data)) else blocks_free);
                 blocks_avail =
                   (if avail_bytes < to_size_t (blocks_avail * int (block_size data))
                    then to_int64 (int (avail_bytes div block_size data)) else blocks_avail)
             in scan_mounts h e data location (Suc k) ms blocks_free blocks_avail)"

text \<open>
  \<^verbatim>\<open>statfs\<close> clears the buffer before it acquires the connection. It returns without a
  rollback and without releasing the connection when the tablespace locations cannot be
  read and when the system call fails.
\<close>

definition pgfuse_statfs ::
  "'db psql \<Rightarrow> host \<Rightarrow> PgFuseData \<Rightarrow> env \<Rightarrow> string \<Rightarrow> 'db handler" where
  "pgfuse_statfs q h data e path w0 =
     ACQUIRE data (\<lambda>conn. PSQL_BEGIN conn (\<lambda>w.
       case psql_get_tablespace_locations q (working w) (MAX_TABLESPACE_OIDS h)
         of (res, location0) \<Rightarrow>
       if res < 0 then ret res w
       else let location =
                  map (\<lambda>old_path. case realpath h old_path of None \<Rightarrow> old_path
                                    | Some new_path \<Rightarrow> new_path) location0 in
       case scan_mounts h e data location 0 (mtab h) INT64_MAX INT64_MAX of
         Returned res \<Rightarrow> ret res w
       | Scanned blocks_free0 blocks_avail \<Rightarrow>
       let blocks_used = psql_get_fs_blocks_used q (working w) in
       if blocks_used < 0 then rollback_return data conn (to_int blocks_used) w
       else let blocks_total = to_int64 (blocks_avail + blocks_used);
                blocks_free = blocks_avail;
                files_free = INT64_MAX;
                files_used = psql_get_fs_files_used q (working w) in
       if files_used < 0 then rollback_return data conn (to_int files_used) w
       else let files_total = to_int64 (files_free + files_used);
                files_avail = files_free in
       commit_return data conn 0
         (w\<lparr>vfsbuf := (vfsbuf w)
            \<lparr>f_bsize := block_size data,
             f_frsize := block_size data,
             f_blocks := to_size_t blocks_total,
             f_bfree := to_size_t blocks_free,
             f_bavail := to_size_t blocks_avail,
             f_files := to_size_t files_total,
             f_ffree := to_size_t files_free,
             f_favail := to_size_t files_avail,
             f_fsid := 0x4FE3A364,
             f_flag := (if read_only data then f_flag (vfsbuf w) OR ST_RDONLY
                        else f_flag (vfsbuf w)),
             f_namemax := MAX_FILENAME_LENGTH h\<rparr>\<rparr>)))
       (w0\<lparr>vfsbuf := zero_statvfs\<rparr>)"

section \<open>A database layer after the specification\<close>

text \<open>
  Modelled from the spec: the implementation of the database layer (\<^verbatim>\<open>pgsql.c\<close>: the
  functions \<^verbatim>\<open>psql_read_meta\<close>, \<^verbatim>\<open>psql_read_meta_from_path\<close>, \<^verbatim>\<open>psql_write_meta\<close>,
  \<^verbatim>\<open>psql_create_file\<close>, \<^verbatim>\<open>psql_create_dir\<close>, \<^verbatim>\<open>psql_delete_file\<close>, \<^verbatim>\<open>psql_delete_dir\<close>,
  \<^verbatim>\<open>psql_readdir\<close>, \<^verbatim>\<open>psql_read_buf\<close>, \<^verbatim>\<open>psql_write_buf\<close>, \<^verbatim>\<open>psql_truncate\<close>,
  \<^verbatim>\<open>psql_rename\<close>) is not among the sources. This section follows sections 3, 4.1 and 4.3
  of the specification: one record per inode with id, parent id, name and metadata, the
  root being its own parent; one record per block, keyed by inode id and block number.
\<close>

abbreviation (input) EFBIG :: int where "EFBIG \<equiv> 27"
abbreviation (input) NUL :: char where "NUL \<equiv> CHR 0x00"

record inode =
  ino_id :: int
  ino_name :: string
  ino_meta :: PgMeta

record sdb =
  inodes :: "inode list"
  blocks :: "((int \<times> nat) \<times> string) list"
  tablespaces :: "string list"

definition zero_meta :: PgMeta where
  "zero_meta = \<lparr>meta_size = 0, meta_mode = 0, meta_uid = 0, meta_gid = 0,
     meta_ctime = \<lparr>tv_sec = 0, tv_nsec = 0\<rparr>, meta_mtime = \<lparr>tv_sec = 0, tv_nsec = 0\<rparr>,
     meta_atime = \<lparr>tv_sec = 0, tv_nsec = 0\<rparr>, meta_parent_id = 0\<rparr>"

subsection \<open>Path resolver\<close>

text \<open>
  Modelled from the spec: ``repeated single-component lookups from the root; an
  intermediate non-directory yields \<open>-ENOTDIR\<close>'', a missing component \<open>-ENOENT\<close>.
\<close>

fun split_path :: "string \<Rightarrow> string \<Rightarrow> string list" where
  "split_path cur [] = (if cur = [] then [] else [cur])"
| "split_path cur (c # cs) =
     (if c = slash then (if cur = [] then split_path [] cs else cur # split_path [] cs)
      else split_path (cur @ [c]) cs)"

definition components :: "string \<Rightarrow> string list" where
  "components p = split_path [] p"

definition root_of :: "sdb \<Rightarrow> inode option" where
  "root_of db = find (\<lambda>r. meta_parent_id (ino_meta r) = ino_id r) (inodes db)"

definition lookup_child :: "sdb \<Rightarrow> int \<Rightarrow> string \<Rightarrow> inode option" where
  "lookup_child db pid name =
     find (\<lambda>r. meta_parent_id (ino_meta r) = pid \<and> ino_name r = name) (inodes db)"

fun walk_step :: "sdb \<Rightarrow> int \<times> PgMeta \<Rightarrow> string \<Rightarrow> int \<times> PgMeta" where
  "walk_step db (i, m) name =
     (if i < 0 then (i, m)
      else if \<not> S_ISDIR (meta_mode m) then (- ENOTDIR, m)
      else (case lookup_child db i name of
              None \<Rightarrow> (- ENOENT, m)
            | Some r \<Rightarrow> (ino_id r, ino_meta r)))"

definition spec_read_meta_from_path :: "sdb \<Rightarrow> string \<Rightarrow> int \<times> PgMeta" where
  "spec_read_meta_from_path db path =
     (case root_of db of
        None \<Rightarrow> (- ENOENT, zero_meta)
      | Some r \<Rightarrow> foldl (walk_step db) (ino_id r, ino_meta r) (components path))"

subsection \<open>Metadata\<close>

definition find_inode :: "sdb \<Rightarrow> int \<Rightarrow> inode option" where
  "find_inode db i = find (\<lambda>r. ino_id r = i) (inodes db)"

definition spec_read_meta :: "sdb \<Rightarrow> int \<Rightarrow> string \<Rightarrow> int \<times> PgMeta" where
  "spec_read_meta db i path =
     (case find_inode db i of None \<Rightarrow> (- ENOENT, zero_meta) | Some r \<Rightarrow> (i, ino_meta r))"

text \<open>Modelled from the spec: ``overwrites mode, uid, gid, size, all three timestamps''.\<close>

definition overwrite :: "PgMeta \<Rightarrow> PgMeta \<Rightarrow> PgMeta" where
  "overwrite m old = old\<lparr>meta_size := meta_size m, meta_mode := meta_mode m,
     meta_uid := meta_uid m, meta_gid := meta_gid m, meta_ctime := meta_ctime m,
     meta_mtime := meta_mtime m, meta_atime := meta_atime m\<rparr>"

definition spec_write_meta :: "sdb \<Rightarrow> int \<Rightarrow> string \<Rightarrow> PgMeta \<Rightarrow> int \<times> sdb" where
  "spec_write_meta db i path m =
     (case find_inode db i of
        None \<Rightarrow> (- ENOENT, db)
      | Some _ \<Rightarrow> (0, db\<lparr>inodes :=
          map (\<lambda>r. if ino_id r = i then r\<lparr>ino_meta := overwrite m (ino_meta r)\<rparr> else r)
            (inodes db)\<rparr>))"

subsection \<open>Creating and deleting inodes\<close>

definition fresh_id :: "sdb \<Rightarrow> int" where
  "fresh_id db = foldr max (map ino_id (inodes db)) 0 + 1"

text \<open>The child count of a directory is its size.\<close>

definition count_child :: "int \<Rightarrow> (nat \<Rightarrow> nat) \<Rightarrow> inode \<Rightarrow> inode" where
  "count_child pid f r =
     (if ino_id r = pid then r\<lparr>ino_meta := (ino_meta r)\<lparr>meta_size := f (meta_size (ino_meta r))\<rparr>\<rparr>
      else r)"

text \<open>
  Modelled from the spec: ``inserts a new inode; fails with \<open>-EEXIST\<close> if the unique
  (parent_id, name) constraint is violated; on success increments the parent directory's
  size''.
\<close>

definition spec_create :: "sdb \<Rightarrow> int \<Rightarrow> string \<Rightarrow> string \<Rightarrow> PgMeta \<Rightarrow> int \<times> sdb" where
  "spec_create db pid path name m =
     (case lookup_child db pid name of
        Some _ \<Rightarrow> (- EEXIST, db)
      | None \<Rightarrow> (0, db\<lparr>inodes := map (count_child pid Suc) (inodes db) @
          [\<lparr>ino_id = fresh_id db, ino_name = name, ino_meta = m\<lparr>meta_parent_id := pid\<rparr>\<rparr>]\<rparr>))"

definition remove_inode :: "sdb \<Rightarrow> inode \<Rightarrow> sdb" where
  "remove_inode db r =
     db\<lparr>inodes := map (count_child (meta_parent_id (ino_meta r)) (\<lambda>n. n - 1))
                    (filter (\<lambda>x. ino_id x \<noteq> ino_id r) (inodes db)),
        blocks := filter (\<lambda>b. fst (fst b) \<noteq> ino_id r) (blocks db)\<rparr>"

definition spec_delete_file :: "sdb \<Rightarrow> int \<Rightarrow> string \<Rightarrow> int \<times> sdb" where
  "spec_delete_file db i path =
     (case find_inode db i of None \<Rightarrow> (- ENOENT, db) | Some r \<Rightarrow> (0, remove_inode db r))"

definition children :: "sdb \<Rightarrow> int \<Rightarrow> inode list" where
  "children db i =
     filter (\<lambda>r. meta_parent_id (ino_meta r) = i \<and> ino_id r \<noteq> i) (inodes db)"

definition spec_delete_dir :: "sdb \<Rightarrow> int \<Rightarrow> string \<Rightarrow> int \<times> sdb" where
  "spec_delete_dir db i path =
     (case find_inode db i of
        None \<Rightarrow> (- ENOENT, db)
      | Some r \<Rightarrow> if children db i \<noteq> [] then (- ENOTEMPTY, db) else (0, remove_inode db r))"

definition spec_readdir :: "sdb \<Rightarrow> int \<Rightarrow> int \<times> string list" where
  "spec_readdir db i = (0, map ino_name (children db i))"

text \<open>Modelled from the spec: ``updates the inode's parent and name atomically''.\<close>

definition spec_rename ::
  "sdb \<Rightarrow> int \<Rightarrow> int \<Rightarrow> int \<Rightarrow> string \<Rightarrow> string \<Rightarrow> string \<Rightarrow> int \<times> sdb" where
  "spec_rename db from_id from_parent_id to_parent_id new_name from to =
     (case lookup_child db to_parent_id new_name of
        Some _ \<Rightarrow> (- EEXIST, db)
      | None \<Rightarrow> (0, db\<lparr>inodes :=
          map (\<lambda>r. if ino_id r = from_id
                    then r\<lparr>ino_name := new_name,
                           ino_meta := (ino_meta r)\<lparr>meta_parent_id := to_parent_id\<rparr>\<rparr>
                    else r) (inodes db)\<rparr>))"

subsection \<open>Block engine\<close>

text \<open>
  Modelled from the spec (section 4.3). A block holds exactly \<open>B\<close> bytes; a missing block
  reads as zeros. The engine does not update the size of the inode.
\<close>

definition get_block :: "sdb \<Rightarrow> int \<Rightarrow> nat \<Rightarrow> string option" where
  "get_block db i bn = map_of (blocks db) (i, bn)"

definition put_block :: "sdb \<Rightarrow> int \<Rightarrow> nat \<Rightarrow> string \<Rightarrow> sdb" where
  "put_block db i bn bytes =
     db\<lparr>blocks := ((i, bn), bytes) # filter (\<lambda>b. fst b \<noteq> (i, bn)) (blocks db)\<rparr>"

definition block_or_zeros :: "sdb \<Rightarrow> nat \<Rightarrow> int \<Rightarrow> nat \<Rightarrow> string" where
  "block_or_zeros db B i bn =
     (case get_block db i bn of None \<Rightarrow> replicate B NUL | Some b \<Rightarrow> b)"

text \<open>The block numbers touched by the byte range from \<open>off\<close> of length \<open>len\<close>.\<close>

definition touched :: "nat \<Rightarrow> nat \<Rightarrow> nat \<Rightarrow> nat list" where
  "touched B off len = (if len = 0 then [] else [off div B ..< (off + len - 1) div B + 1])"

text \<open>
  Modelled from the spec: ``if the write covers the entire block, write new bytes
  directly; otherwise fetch the existing block (or synthesize a zero-filled block), overlay
  the partial range, store back exactly \<open>B\<close> bytes''.
\<close>

definition write_block :: "nat \<Rightarrow> int \<Rightarrow> string \<Rightarrow> nat \<Rightarrow> sdb \<Rightarrow> nat \<Rightarrow> sdb" where
  "write_block B i bytes off db bn =
     (let lo = max off (bn * B);
          hi = min (off + length bytes) (bn * B + B);
          piece = take (hi - lo) (drop (lo - off) bytes)
      in if hi - lo = B then put_block db i bn piece
         else let old = block_or_zeros db B i bn
              in put_block db i bn (take (lo - bn * B) old @ piece @ drop (hi - bn * B) old))"

definition spec_write_buf ::
  "sdb \<Rightarrow> nat \<Rightarrow> int \<Rightarrow> string \<Rightarrow> string \<Rightarrow> int \<Rightarrow> nat \<Rightarrow> int \<times> sdb" where
  "spec_write_buf db B i path bytes offset len =
     (if offset < 0 \<or> B = 0 then (- EINVAL, db)
      else if offset + int len \<ge> 2 ^ 63 then (- EFBIG, db)
      else if find_inode db i = None then (- EIO, db)
      else (int len,
            foldl (write_block B i (take len bytes) (nat offset)) db (touched B (nat offset) len)))"

text \<open>
  Modelled from the spec: a read produces \<open>min(length, max(0, size - offset))\<close> bytes,
  block by block, with zeros for a missing block.
\<close>

definition read_block :: "sdb \<Rightarrow> nat \<Rightarrow> int \<Rightarrow> nat \<Rightarrow> nat \<Rightarrow> nat \<Rightarrow> string" where
  "read_block db B i off n bn =
     (let lo = max off (bn * B);
          hi = min (off + n) (bn * B + B)
      in take (hi - lo) (drop (lo - bn * B) (block_or_zeros db B i bn)))"

definition spec_read_buf ::
  "sdb \<Rightarrow> nat \<Rightarrow> int \<Rightarrow> string \<Rightarrow> int \<Rightarrow> nat \<Rightarrow> int \<times> string" where
  "spec_read_buf db B i path offset len =
     (if offset < 0 \<or> B = 0 then (- EINVAL, [])
      else case find_inode db i of
        None \<Rightarrow> (- EIO, [])
      | Some r \<Rightarrow>
          (let n = min len (meta_size (ino_meta r) - nat offset)
           in (int n, concat (map (read_block db B i (nat offset) n) (touched B (nat offset) n)))))"

text \<open>
  Modelled from the spec: truncation deletes all blocks after the last one and zeroes the
  tail of the last block when the new size is not on a block boundary.
\<close>

definition spec_truncate :: "sdb \<Rightarrow> nat \<Rightarrow> int \<Rightarrow> string \<Rightarrow> int \<Rightarrow> int \<times> sdb" where
  "spec_truncate db B i path offset =
     (if offset < 0 \<or> B = 0 then (- EINVAL, db)
      else if find_inode db i = None then (- EIO, db)
      else let n = nat offset;
               keep = (n + B - 1) div B;
               db1 = db\<lparr>blocks := filter (\<lambda>b. fst (fst b) \<noteq> i \<or> snd (fst b) < keep) (blocks db)\<rparr>
           in if n mod B \<noteq> 0 \<and> get_block db1 i (n div B) \<noteq> None
              then (0, put_block db1 i (n div B)
                         (take (n mod B) (block_or_zeros db1 B i (n div B)) @
                          replicate (B - n mod B) NUL))
              else (0, db1))"

subsection \<open>Counters\<close>

text \<open>
  Modelled from the spec: the aggregates for \<^verbatim>\<open>statfs\<close> and the directories the database
  uses, as many as the caller has room for.
\<close>

definition spec_get_tablespace_locations :: "sdb \<Rightarrow> nat \<Rightarrow> int \<times> string list" where
  "spec_get_tablespace_locations db n = (0, take n (tablespaces db))"

definition spec_get_fs_blocks_used :: "sdb \<Rightarrow> int" where
  "spec_get_fs_blocks_used db = int (length (blocks db))"

definition spec_get_fs_files_used :: "sdb \<Rightarrow> int" where
  "spec_get_fs_files_used db = int (length (inodes db))"

subsection \<open>The layer as a record\<close>

definition spec_psql :: "sdb psql" where
  "spec_psql = \<lparr>
     psql_read_meta = spec_read_meta,
     psql_read_meta_from_path = spec_read_meta_from_path,
     psql_write_meta = spec_write_meta,
     psql_create_file = spec_create,
     psql_create_dir = spec_create,
     psql_delete_file = spec_delete_file,
     psql_delete_dir = spec_delete_dir,
     psql_readdir = spec_readdir,
     psql_read_buf = spec_read_buf,
     psql_write_buf = spec_write_buf,
     psql_truncate = spec_truncate,
     psql_rename = spec_rename,
     psql_get_tablespace_locations = spec_get_tablespace_locations,
     psql_get_fs_blocks_used = spec_get_fs_blocks_used,
     psql_get_fs_files_used = spec_get_fs_files_used\<rparr>"

subsection \<open>A small file system\<close>

text \<open>
  The root directory (id 1), a directory \<open>/d\<close> (id 2), a regular file \<open>/f\<close> (id 3) of five
  bytes, an empty regular file \<open>/d/g\<close> (id 4) and a symbolic link \<open>/l\<close> (id 5) to \<open>/f\<close>;
  block size 4.
\<close>

definition mk_meta :: "mode_t \<Rightarrow> nat \<Rightarrow> int \<Rightarrow> PgMeta" where
  "mk_meta mode sz parent = \<lparr>meta_size = sz, meta_mode = mode, meta_uid = 1000, meta_gid = 100,
     meta_ctime = \<lparr>tv_sec = 7, tv_nsec = 0\<rparr>, meta_mtime = \<lparr>tv_sec = 8, tv_nsec = 0\<rparr>,
     meta_atime = \<lparr>tv_sec = 9, tv_nsec = 0\<rparr>, meta_parent_id = parent\<rparr>"

definition db0 :: sdb where
  "db0 = \<lparr>inodes =
      [\<lparr>ino_id = 1, ino_name = ''/'', ino_meta = mk_meta (0x1ED OR S_IFDIR) 3 1\<rparr>,
       \<lparr>ino_id = 2, ino_name = ''d'', ino_meta = mk_meta (0x1ED OR S_IFDIR) 1 1\<rparr>,
       \<lparr>ino_id = 3, ino_name = ''f'', ino_meta = mk_meta (0x1A4 OR S_IFREG) 5 1\<rparr>,
       \<lparr>ino_id = 4, ino_name = ''g'', ino_meta = mk_meta (0x1A4 OR S_IFREG) 0 2\<rparr>,
       \<lparr>ino_id = 5, ino_name = ''l'', ino_meta = mk_meta (0x1FF OR S_IFLNK) 2 1\<rparr>],
     blocks = [((3, 0), ''hell''), ((3, 1), [CHR ''o'', NUL, NUL, NUL]),
               ((5, 0), [CHR ''/'', CHR ''f'', NUL, NUL])],
     tablespaces = [''/var/lib/postgresql'']\<rparr>"

definition data0 :: PgFuseData where
  "data0 = \<lparr>conn = Some 0, read_only = False, multi_threaded = True, block_size = 4\<rparr>"

definition env0 :: env where
  "env0 = \<lparr>ctx_uid = 501, ctx_gid = 20, timeofday = Some (1000, 250), strdup_ok = (\<lambda>n. True)\<rparr>"

definition world0 :: "sdb world" where
  "world0 = \<lparr>committed = db0, working = db0, in_tx = False, pool = \<lparr>avail = [1, 2]\<rparr>,
     trace = [], fi = \<lparr>flags = 0, fh = 0\<rparr>, stbuf = zero_stat, buf = [], dirbuf = [],
     vfsbuf = zero_statvfs, sigfpe = False, sigabrt = False\<rparr>"

section \<open>Running a handler with a working pool\<close>

text \<open>
  The pool can serve a handler when a connection is there and, in multi-threaded mode, no
  connection is in the bag twice. Then ACQUIRE hands out \<open>the_conn\<close>, the handler's body
  starts in the state \<open>begun\<close>, and RELEASE puts the connection back.
\<close>

definition pool_ok :: "PgFuseData \<Rightarrow> 'db world \<Rightarrow> bool" where
  "pool_ok data w \<longleftrightarrow>
     (if multi_threaded data then avail (pool w) \<noteq> [] \<and> distinct (avail (pool w))
      else conn data \<noteq> None)"

definition the_conn :: "PgFuseData \<Rightarrow> 'db world \<Rightarrow> nat" where
  "the_conn data w = (if multi_threaded data then hd (avail (pool w)) else the (conn data))"

definition begun :: "PgFuseData \<Rightarrow> 'db world \<Rightarrow> 'db world" where
  "begun data w = w\<lparr>
     pool := (if multi_threaded data then (pool w)\<lparr>avail := tl (avail (pool w))\<rparr> else pool w),
     working := committed w, in_tx := True, trace := trace w @ [Acquire, Begin]\<rparr>"

definition can_release :: "PgFuseData \<Rightarrow> nat \<Rightarrow> PgConnPool \<Rightarrow> bool" where
  "can_release data c p \<longleftrightarrow> (multi_threaded data \<longrightarrow> c \<notin> set (avail p))"

definition pool_after :: "PgFuseData \<Rightarrow> nat \<Rightarrow> PgConnPool \<Rightarrow> PgConnPool" where
  "pool_after data c p = (if multi_threaded data then p\<lparr>avail := c # avail p\<rparr> else p)"

subsection \<open>Further sample inputs\<close>

text \<open>
  A layer whose block engine reports one byte less than it was asked to write, and the
  sample state with \<open>/f\<close> open for writing.
\<close>

definition short_psql :: "sdb psql" where
  "short_psql = spec_psql\<lparr>psql_write_buf := (\<lambda>db B i path bytes offset len. (int len - 1, db))\<rparr>"

definition host0 :: host where
  "host0 = \<lparr>realpath = (\<lambda>p. Some p), mtab = [Some ''/'', None, Some ''/var''],
     sys_statfs = (\<lambda>p. (0, \<lparr>fs_bfree = 1000, fs_bavail = 900, fs_frsize = 4096\<rparr>)),
     MAX_TABLESPACE_OIDS = 16, MAX_FILENAME_LENGTH = 255\<rparr>"

definition world3 :: "sdb world" where
  "world3 = world0\<lparr>fi := \<lparr>flags = 1, fh = 3\<rparr>\<rparr>"

text \<open>
  The sample mount read-only, the sample state after \<^verbatim>\<open>open\<close> of \<open>/f\<close>, and a host whose
  \<^verbatim>\<open>statfs\<close> system call fails.
\<close>

definition ro_data :: PgFuseData where
  "ro_data = data0\<lparr>read_only := True\<rparr>"

definition world_open :: "sdb world" where
  "world_open = world0\<lparr>trace := [Acquire, Begin, Commit, Release], fi := \<lparr>flags = 0, fh = 3\<rparr>\<rparr>"

definition host_failing :: host where
  "host_failing = host0\<lparr>sys_statfs := (\<lambda>p. (- 1, \<lparr>fs_bfree = 0, fs_bavail = 0, fs_frsize = 0\<rparr>))\<rparr>"

text \<open>
  A layer whose lookup answers \<open>-ENOENT\<close> for every path that does not resolve, also where
  the resolver of the specification answers \<open>-ENOTDIR\<close>.
\<close>

definition lax_psql :: "sdb psql" where
  "lax_psql = spec_psql\<lparr>psql_read_meta_from_path :=
     (\<lambda>db path. case spec_read_meta_from_path db path of
        (i, m) \<Rightarrow> if i = - ENOTDIR then (- ENOENT, m) else (i, m))\<rparr>"



text \<open>An absolute path other than the root.\<close>

definition proper_path :: "string \<Rightarrow> bool" where
  "proper_path p \<longleftrightarrow> p \<noteq> [] \<and> hd p = slash \<and> strip_slashes p \<noteq> []"

text \<open>Inode ids are not negative: negative numbers are error codes.\<close>

definition wf_ids :: "sdb \<Rightarrow> bool" where
  "wf_ids db \<longleftrightarrow> list_all (\<lambda>r. 0 \<le> ino_id r) (inodes db)"

text \<open>The inode table after a successful \<open>spec_create\<close>.\<close>

definition with_child :: "sdb \<Rightarrow> int \<Rightarrow> string \<Rightarrow> PgMeta \<Rightarrow> sdb" where
  "with_child db pid name m = db\<lparr>inodes := map (count_child pid Suc) (inodes db) @
     [\<lparr>ino_id = fresh_id db, ino_name = name, ino_meta = m\<lparr>meta_parent_id := pid\<rparr>\<rparr>]\<rparr>"

text \<open>The bytes of \<open>t\<close> that belong to block \<open>bn\<close>, and the database after writing \<open>t\<close> at offset 0.\<close>

definition chunk :: "nat \<Rightarrow> string \<Rightarrow> nat \<Rightarrow> string" where
  "chunk B t bn = take (min (length t) (bn * B + B) - bn * B) (drop (bn * B) t)"

definition written :: "sdb \<Rightarrow> nat \<Rightarrow> int \<Rightarrow> string \<Rightarrow> sdb" where
  "written db B i t = foldl (write_block B i t 0) db (touched B 0 (length t))"

section \<open>Connection and transaction bookkeeping\<close>

lemma acquire_begin:
  "pool_ok data w \<Longrightarrow>
     ACQUIRE data (\<lambda>c. PSQL_BEGIN c (k c)) w = k (the_conn data w) (begun data w)"
  by (cases "avail (pool w)")
     (auto simp: pool_ok_def ACQUIRE_def PSQL_BEGIN_def psql_acquire_def psql_pool_acquire_def
        the_conn_def begun_def split: option.splits)

lemma rollback_return_eq:
  "can_release data c (pool w) \<Longrightarrow>
     rollback_return data c r w =
       (r, w\<lparr>working := committed w, in_tx := False, pool := pool_after data c (pool w),
            trace := trace w @ [Rollback, Release]\<rparr>)"
  by (auto simp: can_release_def rollback_return_def PSQL_ROLLBACK_def RELEASE_def ret_def
        psql_release_def psql_pool_release_def pool_after_def Let_def)

lemma commit_return_eq:
  "can_release data c (pool w) \<Longrightarrow>
     commit_return data c r w =
       (r, w\<lparr>committed := working w, in_tx := False, pool := pool_after data c (pool w),
            trace := trace w @ [Commit, Release]\<rparr>)"
  by (auto simp: can_release_def commit_return_def PSQL_COMMIT_def RELEASE_def ret_def
        psql_release_def psql_pool_release_def pool_after_def Let_def)

lemma can_release_begun:
  "pool_ok data w \<Longrightarrow> can_release data (the_conn data w) (pool (begun data w))"
  by (cases "avail (pool w)") (auto simp: pool_ok_def can_release_def the_conn_def begun_def)

lemma pool_after_begun:
  "pool_ok data w \<Longrightarrow> pool_after data (the_conn data w) (pool (begun data w)) = pool w"
  by (cases "avail (pool w)") (auto simp: pool_ok_def pool_after_def the_conn_def begun_def)

lemma begun_simps:
  "committed (begun data w) = committed w"
  "working (begun data w) = committed w"
  "fi (begun data w) = fi w"
  "stbuf (begun data w) = stbuf w"
  "buf (begun data w) = buf w"
  "dirbuf (begun data w) = dirbuf w"
  "vfsbuf (begun data w) = vfsbuf w"
  "sigfpe (begun data w) = sigfpe w"
  "sigabrt (begun data w) = sigabrt w"
  "in_tx (begun data w) = True"
  "trace (begun data w) = trace w @ [Acquire, Begin]"
  by (simp_all add: begun_def)

lemma to_int_id: "- (2 ^ 31) \<le> x \<Longrightarrow> x < 2 ^ 31 \<Longrightarrow> to_int x = x"
  by (simp add: to_int_def)

lemma to_size_t_id: "0 \<le> x \<Longrightarrow> x < 2 ^ 64 \<Longrightarrow> to_size_t x = nat x"
  by (simp add: to_size_t_def)

lemma ceil_blocks:
  fixes s B :: nat
  assumes "0 < B"
  shows "(s + B - 1) div B = nat \<lceil>real s / real B\<rceil>"
proof -
  define n where "n = (s + B - 1) div B"
  have 1: "s \<le> n * B"
  proof -
    have "s + B - 1 < (n + 1) * B" unfolding n_def
      using assms by (metis Suc_eq_plus1 dividend_less_div_times mult.commute mult_Suc)
    then show ?thesis using assms by (simp add: algebra_simps)
  qed
  have 2: "n * B < s + B"
  proof -
    have "n * B \<le> s + B - 1" unfolding n_def by simp
    then show ?thesis using assms by linarith
  qed
  have "\<lceil>real s / real B\<rceil> = int n"
  proof (rule ceiling_unique)
    show "real_of_int (int n) - 1 < real s / real B"
    proof -
      have "real n * real B < real s + real B"
        using 2 by (metis of_nat_add of_nat_less_iff of_nat_mult)
      then have "(real n - 1) * real B < real s" by (simp add: algebra_simps)
      then show ?thesis using assms by (simp add: pos_less_divide_eq)
    qed
    show "real s / real B \<le> real_of_int (int n)"
    proof -
      have "real s \<le> real n * real B" using 1 by (metis of_nat_le_iff of_nat_mult)
      then show ?thesis using assms by (simp add: pos_divide_le_eq)
    qed
  qed
  then show ?thesis by (simp add: n_def)
qed

lemmas run_simps = acquire_begin begun_simps Let_def rollback_return_eq commit_return_eq
  can_release_begun pool_after_begun

lemma store_nul:
  "length bytes = n \<Longrightarrow> n < length b \<Longrightarrow>
     take (Suc n) ((store bytes b)[n := c]) = bytes @ [c]"
  by (auto simp: store_def list_update_append take_Suc_conv_app_nth nth_append)

lemma fgetattr_result:
  assumes "pool_ok data w"
    and "psql_read_meta q (committed w) (int (fh (fi w))) path = (i, m)" "0 \<le> i"
    and "0 < block_size data"
  shows "fst (pgfuse_fgetattr q data path w) = 0"
    and "stbuf (snd (pgfuse_fgetattr q data path w)) = fill_stat data i m zero_stat"
  using assms by (simp_all add: pgfuse_fgetattr_def run_simps)

lemma getattr_result:
  assumes "pool_ok data w"
    and "psql_read_meta_from_path q (committed w) path = (i, m)" "0 \<le> i"
    and "0 < block_size data"
  shows "fst (pgfuse_getattr q data path w) = 0"
    and "stbuf (snd (pgfuse_getattr q data path w)) =
           (fill_stat data i m zero_stat)
             \<lparr>st_atime := tv_sec (meta_atime m), st_mtime := tv_sec (meta_mtime m),
              st_ctime := tv_sec (meta_ctime m)\<rparr>"
  using assms by (simp_all add: pgfuse_getattr_def run_simps)

lemma fill_stat_times:
  "st_atime (fill_stat data i m st) = st_atime st"
  "st_mtime (fill_stat data i m st) = st_mtime st"
  "st_ctime (fill_stat data i m st) = st_ctime st"
  by (simp_all add: fill_stat_def)

subsection \<open>Paths and the resolver of the specification\<close>

lemma split_path_plain:
  "slash \<notin> set ys \<Longrightarrow> split_path cur ys = (if cur @ ys = [] then [] else [cur @ ys])"
  by (induction ys arbitrary: cur) auto

lemma split_path_trailing: "split_path cur (xs @ [slash]) = split_path cur xs"
  by (induction xs arbitrary: cur) auto

lemma split_path_last:
  "slash \<notin> set ys \<Longrightarrow> ys \<noteq> [] \<Longrightarrow>
     split_path cur (xs @ slash # ys) = split_path cur xs @ [ys]"
  by (induction xs arbitrary: cur) (auto simp: split_path_plain)

lemma strip_slashes_snoc:
  "strip_slashes (xs @ [x]) = (if x = slash then strip_slashes xs else xs @ [x])"
  by (simp add: strip_slashes_def)

lemma components_strip: "components (strip_slashes p) = components p"
  by (induction p rule: rev_induct)
     (auto simp: strip_slashes_snoc components_def split_path_trailing strip_slashes_def)

lemma cut_last_id: "cut_component s @ last_component s = s"
proof -
  have "rev (takeWhile (\<lambda>c. c \<noteq> slash) (rev s) @ dropWhile (\<lambda>c. c \<noteq> slash) (rev s)) = s"
    by simp
  then show ?thesis unfolding cut_component_def last_component_def by (simp only: rev_append)
qed

lemma last_component_plain: "slash \<notin> set (last_component s)"
  by (auto simp: last_component_def dest: set_takeWhileD)

lemma strip_slashes_last: "strip_slashes p \<noteq> [] \<Longrightarrow> last (strip_slashes p) \<noteq> slash"
  unfolding strip_slashes_def
  by (metis (mono_tags, lifting) hd_dropWhile last_rev rev_is_Nil_conv)

lemma last_component_nonempty: "s \<noteq> [] \<Longrightarrow> last s \<noteq> slash \<Longrightarrow> last_component s \<noteq> []"
  unfolding last_component_def
  by (cases "rev s") (auto simp: last_rev[symmetric] simp del: last_rev)

lemma cut_component_shape: "cut_component s = [] \<or> (\<exists>xs. cut_component s = xs @ [slash])"
proof (cases "dropWhile (\<lambda>c. c \<noteq> slash) (rev s)")
  case Nil
  then show ?thesis by (simp add: cut_component_def)
next
  case (Cons a as)
  then have "a = slash" using hd_dropWhile [of "\<lambda>c. c \<noteq> slash" "rev s"] by auto
  then show ?thesis using Cons by (simp add: cut_component_def)
qed

lemma components_cut:
  assumes "s \<noteq> []" "last s \<noteq> slash" "slash \<in> set s"
  shows "components s = components (cut_component s) @ [last_component s]"
proof -
  have ne: "last_component s \<noteq> []" using assms by (simp add: last_component_nonempty)
  have "cut_component s \<noteq> []"
  proof
    assume "cut_component s = []"
    then have "last_component s = s" using cut_last_id [of s] by simp
    then show False using assms(3) last_component_plain [of s] by simp
  qed
  then obtain xs where xs: "cut_component s = xs @ [slash]"
    using cut_component_shape [of s] by auto
  then have "s = xs @ slash # last_component s" using cut_last_id [of s] by simp
  then have "components s = components xs @ [last_component s]"
    using split_path_last [OF last_component_plain ne, where cur = "[]" and xs = xs]
    by (simp add: components_def)
  then show ?thesis by (simp add: xs components_def split_path_trailing)
qed

lemma strip_slashes_hd: "strip_slashes p \<noteq> [] \<Longrightarrow> hd (strip_slashes p) = hd p"
proof -
  assume ne: "strip_slashes p \<noteq> []"
  have "rev (takeWhile (\<lambda>c. c = slash) (rev p) @ dropWhile (\<lambda>c. c = slash) (rev p)) = p"
    by simp
  then have "strip_slashes p @ rev (takeWhile (\<lambda>c. c = slash) (rev p)) = p"
    unfolding strip_slashes_def by (simp only: rev_append)
  then show ?thesis using ne by (metis hd_append2)
qed

lemma components_dirname:
  assumes "proper_path p"
  shows "components p = components (dirname p) @ [basename p]"
proof -
  define s where "s = strip_slashes p"
  have s: "s \<noteq> []" "last s \<noteq> slash" "hd s = slash"
    using assms strip_slashes_last [of p] strip_slashes_hd [of p]
    by (auto simp: proper_path_def s_def)
  then have mem: "slash \<in> set s" by (cases s) auto
  have d: "components (dirname p) = components (cut_component s)"
  proof (cases "strip_slashes (cut_component s) = []")
    case True
    then have "components (cut_component s) = []"
      using components_strip [of "cut_component s"] by (simp add: components_def)
    then show ?thesis using assms s mem True
      by (simp add: dirname_def proper_path_def s_def [symmetric] components_def)
  next
    case False
    then show ?thesis using assms s mem components_strip [of "cut_component s"]
      by (simp add: dirname_def proper_path_def s_def [symmetric])
  qed
  have b: "basename p = last_component s"
    using assms s by (simp add: basename_def proper_path_def s_def [symmetric])
  have "components p = components s" by (simp add: s_def components_strip)
  then show ?thesis using components_cut [OF s(1,2) mem] d b by simp
qed

lemma resolve_dirname:
  assumes "proper_path p"
  shows "spec_read_meta_from_path db p =
           walk_step db (spec_read_meta_from_path db (dirname p)) (basename p)"
  using components_dirname [OF assms]
  by (simp add: spec_read_meta_from_path_def zero_meta_def split: option.splits)

subsection \<open>Creating an inode in the database of the specification\<close>

lemma spec_psql_simps:
  "psql_read_meta spec_psql = spec_read_meta"
  "psql_read_meta_from_path spec_psql = spec_read_meta_from_path"
  "psql_write_meta spec_psql = spec_write_meta"
  "psql_create_file spec_psql = spec_create"
  "psql_create_dir spec_psql = spec_create"
  "psql_read_buf spec_psql = spec_read_buf"
  "psql_write_buf spec_psql = spec_write_buf"
  by (simp_all add: spec_psql_def)

lemma walk_neg: "i < 0 \<Longrightarrow> foldl (walk_step db) (i, m) cs = (i, m)"
  by (induction cs) auto

lemma count_child_keeps:
  "ino_id (count_child p g r) = ino_id r"
  "ino_name (count_child p g r) = ino_name r"
  "meta_parent_id (ino_meta (count_child p g r)) = meta_parent_id (ino_meta r)"
  "meta_mode (ino_meta (count_child p g r)) = meta_mode (ino_meta r)"
  by (simp_all add: count_child_def)

lemma find_app:
  "find P (xs @ ys) = (case find P xs of None \<Rightarrow> find P ys | Some x \<Rightarrow> Some x)"
  by (induction xs) auto

lemma lookup_child_id: "wf_ids db \<Longrightarrow> lookup_child db i c = Some r \<Longrightarrow> 0 \<le> ino_id r"
  by (auto simp: wf_ids_def lookup_child_def find_Some_iff list_all_length)

lemma find_map_keeps:
  "(\<And>x. P (f x) = P x) \<Longrightarrow> find P (map f xs) = map_option f (find P xs)"
  by (induction xs) auto

lemma spec_create_new:
  "lookup_child db pid name = None \<Longrightarrow>
     spec_create db pid path name m = (0, with_child db pid name m)"
  by (simp add: spec_create_def with_child_def)

lemma lookup_child_with_child:
  "lookup_child (with_child db pid name m) i c =
     (case lookup_child db i c of
        Some r \<Rightarrow> Some (count_child pid Suc r)
      | None \<Rightarrow> if pid = i \<and> name = c
                then Some \<lparr>ino_id = fresh_id db, ino_name = name,
                            ino_meta = m\<lparr>meta_parent_id := pid\<rparr>\<rparr>
                else None)"
  by (auto simp: lookup_child_def with_child_def find_app find_map_keeps count_child_keeps
      split: option.splits)

lemma fresh_id_above: "r \<in> set (inodes db) \<Longrightarrow> ino_id r < fresh_id db"
proof -
  have "x \<in> set xs \<Longrightarrow> x \<le> foldr max xs (0::int)" for x xs
    by (induction xs) auto
  then show "r \<in> set (inodes db) \<Longrightarrow> ino_id r < fresh_id db"
    by (force simp: fresh_id_def)
qed

lemma fresh_id_pos: "0 < fresh_id db"
proof -
  have "0 \<le> foldr max xs (0::int)" for xs by (induction xs) auto
  then show ?thesis by (simp add: fresh_id_def add.commute add_pos_nonneg)
qed

lemma root_of_with_child:
  assumes "root_of db = Some r" "0 \<le> pid"
  shows "root_of (with_child db pid name m) = Some (count_child pid Suc r)"
  using assms
  by (simp add: root_of_def with_child_def find_app find_map_keeps count_child_keeps)

lemma walk_with_child:
  assumes fresh: "lookup_child db pid name = None"
  shows "foldl (walk_step db) (i, m1) cs = (j, m2) \<Longrightarrow> 0 \<le> j \<Longrightarrow>
         meta_mode m1' = meta_mode m1 \<Longrightarrow>
         \<exists>m2'. foldl (walk_step (with_child db pid name m)) (i, m1') cs = (j, m2') \<and>
               meta_mode m2' = meta_mode m2"
proof (induction cs arbitrary: i m1 m1')
  case Nil
  then show ?case by simp
next
  case (Cons c cs)
  show ?case
  proof (cases "i < 0 \<or> \<not> S_ISDIR (meta_mode m1) \<or> lookup_child db i c = None")
    case True
    then have "\<exists>k m. walk_step db (i, m1) c = (k, m) \<and> k < 0" by auto
    then obtain k m where "walk_step db (i, m1) c = (k, m)" "k < 0" by blast
    then have "foldl (walk_step db) (i, m1) (c # cs) = (k, m)" by (simp add: walk_neg)
    then show ?thesis using Cons.prems \<open>k < 0\<close> by simp
  next
    case False
    then obtain r where r: "lookup_child db i c = Some r" by auto
    have old: "walk_step db (i, m1) c = (ino_id r, ino_meta r)" using False r by simp
    have new: "walk_step (with_child db pid name m) (i, m1') c =
        (ino_id r, ino_meta (count_child pid Suc r))"
      using False r Cons.prems(3) by (simp add: lookup_child_with_child count_child_keeps)
    have "foldl (walk_step db) (ino_id r, ino_meta r) cs = (j, m2)"
      using Cons.prems(1) old by simp
    from Cons.IH [OF this Cons.prems(2), of "ino_meta (count_child pid Suc r)"]
    show ?thesis using new by (simp add: count_child_keeps)
  qed
qed

lemma resolve_with_child:
  assumes fresh: "lookup_child db pid name = None"
    and old: "spec_read_meta_from_path db p = (j, m2)" "0 \<le> j" and pid: "0 \<le> pid"
  shows "\<exists>m2'. spec_read_meta_from_path (with_child db pid name m) p = (j, m2') \<and>
               meta_mode m2' = meta_mode m2"
proof (cases "root_of db")
  case None
  then show ?thesis using old by (simp add: spec_read_meta_from_path_def)
next
  case (Some r)
  then have "foldl (walk_step db) (ino_id r, ino_meta r) (components p) = (j, m2)"
    using old by (simp add: spec_read_meta_from_path_def)
  from walk_with_child [OF fresh this old(2), of "ino_meta (count_child pid Suc r)" m]
  show ?thesis using Some root_of_with_child [OF Some pid, of name m]
    by (simp add: spec_read_meta_from_path_def count_child_keeps)
qed

lemma resolve_created:
  assumes p: "proper_path path"
    and par: "spec_read_meta_from_path db (dirname path) = (pid, pm)" "0 \<le> pid"
      "S_ISDIR (meta_mode pm)"
    and fresh: "lookup_child db pid (basename path) = None"
  shows "spec_read_meta_from_path (with_child db pid (basename path) m) path =
           (fresh_id db, m\<lparr>meta_parent_id := pid\<rparr>)"
proof -
  obtain pm' where pm': "spec_read_meta_from_path (with_child db pid (basename path) m)
      (dirname path) = (pid, pm')" "meta_mode pm' = meta_mode pm"
    using resolve_with_child [OF fresh par(1,2) par(2), of m] by blast
  show ?thesis
    using resolve_dirname [OF p, of "with_child db pid (basename path) m"] pm' par fresh
    by (simp add: lookup_child_with_child)
qed

subsection \<open>The block engine of the specification, at offset 0\<close>

lemma map_of_filter_key:
  "map_of (filter (\<lambda>b. fst b \<noteq> k) xs) k' = (if k' = k then None else map_of xs k')"
  by (induction xs) auto

lemma get_put_block:
  "get_block (put_block db i bn b) i' bn' =
     (if i' = i \<and> bn' = bn then Some b else get_block db i' bn')"
  by (auto simp: get_block_def put_block_def map_of_filter_key)

lemma inodes_put_block: "inodes (put_block db i bn b) = inodes db"
  by (simp add: put_block_def)

lemma inodes_write_block: "inodes (write_block B i t off db bn) = inodes db"
  by (simp add: write_block_def Let_def inodes_put_block)

lemma inodes_written: "inodes (written db B i t) = inodes db"
proof -
  have "inodes (foldl (write_block B i t 0) d bns) = inodes d" for d bns
    by (induction bns arbitrary: d) (simp_all add: inodes_write_block)
  then show ?thesis by (simp add: written_def)
qed

lemma get_write_block_other:
  "bn' \<noteq> bn \<Longrightarrow> get_block (write_block B i t off db bn) i bn' = get_block db i bn'"
  by (simp add: write_block_def Let_def get_put_block)

lemma get_write_block_same:
  "\<exists>b. get_block (write_block B i t 0 db bn) i bn = Some b \<and>
       take (min (length t) (bn * B + B) - bn * B) b = chunk B t bn"
  by (auto simp: write_block_def Let_def get_put_block chunk_def min_def)

lemma fold_write_other:
  "bn \<notin> set bns \<Longrightarrow>
     get_block (foldl (write_block B i t 0) db bns) i bn = get_block db i bn"
  by (induction bns arbitrary: db) (auto simp: get_write_block_other)

lemma fold_write_same:
  "distinct bns \<Longrightarrow> bn \<in> set bns \<Longrightarrow>
     \<exists>b. get_block (foldl (write_block B i t 0) db bns) i bn = Some b \<and>
         take (min (length t) (bn * B + B) - bn * B) b = chunk B t bn"
proof (induction bns arbitrary: db)
  case Nil
  then show ?case by simp
next
  case (Cons a bns)
  show ?case
  proof (cases "bn = a")
    case True
    then have "bn \<notin> set bns" using Cons.prems by simp
    then show ?thesis
      using True get_write_block_same [of B i t db a] by (simp add: fold_write_other)
  next
    case False
    then show ?thesis using Cons by simp
  qed
qed

lemma read_written_block:
  assumes "bn \<in> set (touched B 0 (length t))"
  shows "read_block (written db B i t) B i 0 (length t) bn = chunk B t bn"
proof -
  have d: "distinct (touched B 0 (length t))" by (simp add: touched_def)
  obtain b where "get_block (written db B i t) i bn = Some b"
      "take (min (length t) (bn * B + B) - bn * B) b = chunk B t bn"
    using fold_write_same [OF d assms, of B i t db] by (auto simp: written_def)
  then show ?thesis by (simp add: read_block_def block_or_zeros_def)
qed

lemma concat_chunks: "concat (map (chunk B t) [0..<k]) = take (k * B) t"
proof (induction k)
  case 0
  then show ?case by simp
next
  case (Suc k)
  have c: "chunk B t k = take B (drop (k * B) t)"
    by (simp add: chunk_def min_def)
  have "take (Suc k * B) t = take (k * B + B) t" by (simp add: add.commute)
  also have "\<dots> = take (k * B) t @ take B (drop (k * B) t)" by (rule take_add)
  finally show ?case using Suc c by simp
qed

lemma concat_touched:
  assumes "0 < B"
  shows "concat (map (chunk B t) (touched B 0 (length t))) = t"
proof (cases "length t = 0")
  case True
  then show ?thesis by (simp add: touched_def)
next
  case False
  have "length t - 1 < ((length t - 1) div B + 1) * B"
    using assms by (metis Suc_eq_plus1 dividend_less_div_times mult.commute mult_Suc)
  then have le: "length t \<le> ((length t - 1) div B + 1) * B" using False by linarith
  have "touched B 0 (length t) = [0..<(length t - 1) div B + 1]"
    using False by (simp add: touched_def)
  then have "concat (map (chunk B t) (touched B 0 (length t))) =
      take (((length t - 1) div B + 1) * B) t"
    by (simp only: concat_chunks)
  then show ?thesis using le by simp
qed

lemma spec_write_buf_eq:
  assumes "0 < B" "int (length t) < 2 ^ 63" "find_inode db i \<noteq> None"
  shows "spec_write_buf db B i path t 0 (length t) = (int (length t), written db B i t)"
  using assms by (simp add: spec_write_buf_def written_def)

lemma find_inode_written: "find_inode (written db B i t) j = find_inode db j"
  by (simp add: find_inode_def inodes_written)

lemma spec_read_buf_written:
  assumes "0 < B" "find_inode db i = Some r" "meta_size (ino_meta r) = length t"
  shows "spec_read_buf (written db B i t) B i path 0 (length t) = (int (length t), t)"
proof -
  have eq: "map (read_block (written db B i t) B i 0 (length t)) (touched B 0 (length t)) =
      map (chunk B t) (touched B 0 (length t))"
    by (rule map_cong) (simp_all add: read_written_block)
  have "concat (map (read_block (written db B i t) B i 0 (length t))
      (touched B 0 (length t))) = t"
    by (simp only: eq concat_touched [OF assms(1)])
  then show ?thesis
    using assms by (simp add: spec_read_buf_def find_inode_written Let_def)
qed

lemma resolve_same_inodes:
  assumes "inodes db' = inodes db"
  shows "spec_read_meta_from_path db' path = spec_read_meta_from_path db path"
proof -
  have l: "lookup_child db' = lookup_child db"
    by (intro ext) (simp add: lookup_child_def assms)
  have ws: "walk_step db' = walk_step db"
    by (intro ext) (auto simp: l)
  show ?thesis
    by (simp add: spec_read_meta_from_path_def root_of_def assms ws split: option.splits)
qed

lemma find_inode_with_child:
  "find_inode (with_child db pid name m) (fresh_id db) =
     Some \<lparr>ino_id = fresh_id db, ino_name = name, ino_meta = m\<lparr>meta_parent_id := pid\<rparr>\<rparr>"
proof -
  have "find (\<lambda>r. ino_id r = fresh_id db) (map (count_child pid Suc) (inodes db)) = None"
    by (auto simp: find_None_iff count_child_keeps dest!: fresh_id_above)
  then show ?thesis by (simp add: find_inode_def with_child_def find_app)
qed


lemma pool_ok_same: "pool w' = pool w \<Longrightarrow> pool_ok data w' = pool_ok data w"
  by (simp add: pool_ok_def)

text \<open>
  When no inode id is negative, a path that does not resolve is answered with \<open>-ENOENT\<close> or
  with \<open>-ENOTDIR\<close>.
\<close>

lemma walk_error:
  assumes ids: "wf_ids db"
  shows "0 \<le> i \<or> i = - ENOENT \<or> i = - ENOTDIR \<Longrightarrow>
         foldl (walk_step db) (i, m) cs = (j, mj) \<Longrightarrow>
         0 \<le> j \<or> j = - ENOENT \<or> j = - ENOTDIR"
proof (induction cs arbitrary: i m)
  case Nil
  then show ?case by simp
next
  case (Cons c cs)
  obtain k mk where k: "walk_step db (i, m) c = (k, mk)" by (cases "walk_step db (i, m) c")
  have "0 \<le> k \<or> k = - ENOENT \<or> k = - ENOTDIR"
    using k Cons.prems(1) lookup_child_id [OF ids, of i c]
    by (auto split: if_splits option.splits)
  then show ?case using Cons.IH [of k mk] Cons.prems(2) k by simp
qed

lemma resolve_error:
  assumes ids: "wf_ids db" and r: "spec_read_meta_from_path db p = (j, mj)" and neg: "j < 0"
  shows "j = - ENOENT \<or> j = - ENOTDIR"
proof (cases "root_of db")
  case None
  then show ?thesis using r by (simp add: spec_read_meta_from_path_def)
next
  case (Some r0)
  then have "r0 \<in> set (inodes db)" by (auto simp: root_of_def find_Some_iff)
  then have "0 \<le> ino_id r0" using ids by (auto simp: wf_ids_def list_all_iff)
  then show ?thesis
    using walk_error [OF ids, of "ino_id r0" "ino_meta r0" "components p" j mj] r Some neg
    by (simp add: spec_read_meta_from_path_def)
qed

section \<open>The second copy of the path\<close>

text \<open>
  When the second \<^verbatim>\<open>strdup\<close> of \<^verbatim>\<open>create\<close> or \<^verbatim>\<open>mkdir\<close> fails, the first copy is freed
  twice: the process is aborted with the transaction open and the connection not released.
\<close>

lemma create_second_strdup_aborts:
  assumes "pool_ok data w" "\<not> read_only data"
    and "psql_read_meta_from_path q (committed w) path = (- ENOENT, m)"
    and "psql_read_meta_from_path q (committed w) (dirname path) = (pid, pm)"
    and "0 \<le> pid" "S_ISDIR (meta_mode pm)" "strdup_ok e 0" "\<not> strdup_ok e 1"
  shows "sigabrt (snd (pgfuse_create q data e path mode w)) \<and>
         in_tx (snd (pgfuse_create q data e path mode w)) \<and>
         trace (snd (pgfuse_create q data e path mode w)) = trace w @ [Acquire, Begin]"
  using assms by (simp add: pgfuse_create_def run_simps ret_def)

lemma mkdir_second_strdup_aborts:
  assumes "pool_ok data w" "\<not> read_only data"
    and "psql_read_meta_from_path q (committed w) (dirname path) = (pid, pm)"
    and "0 \<le> pid" "S_ISDIR (meta_mode pm)" "strdup_ok e 0" "\<not> strdup_ok e 1"
  shows "sigabrt (snd (pgfuse_mkdir q data e path mode w)) \<and>
         in_tx (snd (pgfuse_mkdir q data e path mode w)) \<and>
         trace (snd (pgfuse_mkdir q data e path mode w)) = trace w @ [Acquire, Begin]"
  using assms by (simp add: pgfuse_mkdir_def run_simps ret_def)

section \<open>The claims\<close>

subsection \<open>Attributes reported by getattr\<close>

text \<open>
  Claim C7. For every inode that a path resolves to, \<^verbatim>\<open>getattr\<close> reports the block count
  as the ceiling of size / B, the link count as 1 and the block size as B. The block size
  is positive and the size is in the range where the \<^verbatim>\<open>size_t\<close> sum does not wrap.
\<close>

theorem getattr_reports:
  assumes ok: "pool_ok data w"
    and found: "psql_read_meta_from_path q (committed w) path = (i, m)" "0 \<le> i"
    and B: "0 < block_size data"
    and bound: "meta_size m + block_size data \<le> 2 ^ 64"
  shows "fst (pgfuse_getattr q data path w) = 0 \<and>
         st_blocks (stbuf (snd (pgfuse_getattr q data path w))) =
           nat \<lceil>real (meta_size m) / real (block_size data)\<rceil> \<and>
         st_nlink (stbuf (snd (pgfuse_getattr q data path w))) = 1 \<and>
         st_blksize (stbuf (snd (pgfuse_getattr q data path w))) = block_size data"
proof -
  have lt: "meta_size m + block_size data - 1 < 2 ^ 64" using B bound by simp
  show ?thesis
    using ok found B lt ceil_blocks [OF B, of "meta_size m"]
    by (simp add: pgfuse_getattr_def acquire_begin begun_simps Let_def rollback_return_eq
        commit_return_eq can_release_begun fill_stat_def)
qed

text \<open>The file \<open>/f\<close> of five bytes has two blocks of four bytes.\<close>

theorem getattr_reports_witness:
  "fst (pgfuse_getattr spec_psql data0 ''/f'' world0) = 0 \<and>
   st_blocks (stbuf (snd (pgfuse_getattr spec_psql data0 ''/f'' world0))) = 2 \<and>
   st_nlink (stbuf (snd (pgfuse_getattr spec_psql data0 ''/f'' world0))) = 1 \<and>
   st_blksize (stbuf (snd (pgfuse_getattr spec_psql data0 ''/f'' world0))) = 4"
proof -
  have ok: "pool_ok data0 world0" by (simp add: pool_ok_def data0_def world0_def)
  have found: "psql_read_meta_from_path spec_psql (committed world0) ''/f'' =
      (3, mk_meta (0x1A4 OR S_IFREG) 5 1)" "(0::int) \<le> 3"
    by code_simp+
  have B: "0 < block_size data0" by (simp add: data0_def)
  have bound: "meta_size (mk_meta (0x1A4 OR S_IFREG) 5 1) + block_size data0 \<le> 2 ^ 64"
    by (simp add: mk_meta_def data0_def)
  have c: "nat \<lceil>real (meta_size (mk_meta (0x1A4 OR S_IFREG) 5 1)) / real (block_size data0)\<rceil> = 2"
    by (simp add: mk_meta_def data0_def) 
  show ?thesis
    using getattr_reports [OF ok found B bound] c by (simp add: data0_def)
qed

subsection \<open>Handlers that do nothing\<close>

text \<open>
  Claim C9, as amended. \<^verbatim>\<open>flush\<close>, \<^verbatim>\<open>release\<close>, \<^verbatim>\<open>fsyncdir\<close>, \<^verbatim>\<open>opendir\<close>,
  \<^verbatim>\<open>releasedir\<close> and \<^verbatim>\<open>access\<close> return 0 on every input and change no state.
  \<^verbatim>\<open>fsync\<close> changes no state either, but it returns \<open>-EROFS\<close> on a read-only mount and
  otherwise \<open>-EBADF\<close> for a zero file handle; only then does it return 0.
\<close>

theorem noop_handlers:
  "pgfuse_flush path w = (0, w) \<and>
   pgfuse_release data path w = (0, w) \<and>
   pgfuse_fsyncdir path datasync w = (0, w) \<and>
   pgfuse_opendir path w = (0, w) \<and>
   pgfuse_releasedir path w = (0, w) \<and>
   pgfuse_access data path amode w = (0, w) \<and>
   pgfuse_fsync data path isdatasync w =
     (if read_only data then - EROFS else if fh (fi w) = 0 then - EBADF else 0, w)"
  by (simp add: pgfuse_flush_def pgfuse_release_def pgfuse_fsyncdir_def pgfuse_opendir_def
      pgfuse_releasedir_def pgfuse_access_def pgfuse_fsync_def ret_def)

text \<open>
  Claim C9 as stated fails: \<^verbatim>\<open>fsync\<close> on a read-only mount, and \<^verbatim>\<open>fsync\<close> with a zero
  file handle, do not return 0.
\<close>

theorem fsync_counterexample:
  "pgfuse_fsync (data0\<lparr>read_only := True\<rparr>) ''/f'' 0 world0 = (- EROFS, world0) \<and>
   pgfuse_fsync data0 ''/f'' 0 world0 = (- EBADF, world0)"
  by (simp add: pgfuse_fsync_def ret_def data0_def world0_def)


subsection \<open>Reading a symbolic link\<close>

text \<open>
  Claim C8. For every path that resolves, \<^verbatim>\<open>readlink\<close> returns \<open>-ENOENT\<close> if the object is
  not a symbolic link and \<open>-ENOMEM\<close> if the buffer is shorter than size + 1; otherwise it
  stores the bytes the block engine read from offset 0 for the length size at the start of
  the buffer, writes a NUL at index size and returns 0. When the engine delivers all size
  bytes, the buffer starts with them followed by the NUL.
\<close>

theorem readlink_contract:
  assumes ok: "pool_ok data w"
    and found: "psql_read_meta_from_path q (committed w) path = (i, m)" "0 \<le> i"
    and bound: "meta_size m + 1 < 2 ^ 64"
    and rd: "psql_read_buf q (committed w) (block_size data) i path 0 (meta_size m) = (n, bytes)"
  shows "(\<not> S_ISLNK (meta_mode m) \<longrightarrow>
            fst (pgfuse_readlink q data path sz w) = - ENOENT \<and>
            buf (snd (pgfuse_readlink q data path sz w)) = buf w) \<and>
         (S_ISLNK (meta_mode m) \<and> sz < meta_size m + 1 \<longrightarrow>
            fst (pgfuse_readlink q data path sz w) = - ENOMEM \<and>
            buf (snd (pgfuse_readlink q data path sz w)) = buf w) \<and>
         (S_ISLNK (meta_mode m) \<and> meta_size m + 1 \<le> sz \<and> 0 \<le> n \<longrightarrow>
            fst (pgfuse_readlink q data path sz w) = 0 \<and>
            buf (snd (pgfuse_readlink q data path sz w)) =
              (store bytes (buf w))[meta_size m := NUL] \<and>
            (length bytes = meta_size m \<and> length (buf w) = sz \<longrightarrow>
               take (meta_size m + 1) (buf (snd (pgfuse_readlink q data path sz w))) =
                 bytes @ [NUL]))"
proof -
  have m: "(meta_size m + 1) mod 2 ^ 64 = meta_size m + 1" using bound by simp
  show ?thesis
    using ok found rd m
    by (auto simp: pgfuse_readlink_def run_simps store_nul)
qed

text \<open>
  On the sample file system: \<open>/f\<close> is not a link, \<open>/l\<close> needs three bytes, and with three
  bytes the buffer holds the target and the NUL.
\<close>

theorem readlink_contract_witness:
  "fst (pgfuse_readlink spec_psql data0 ''/f'' 8 (world0\<lparr>buf := ''xxxxxxxx''\<rparr>)) = - ENOENT \<and>
   fst (pgfuse_readlink spec_psql data0 ''/l'' 2 (world0\<lparr>buf := ''xx''\<rparr>)) = - ENOMEM \<and>
   fst (pgfuse_readlink spec_psql data0 ''/l'' 3 (world0\<lparr>buf := ''xxx''\<rparr>)) = 0 \<and>
   buf (snd (pgfuse_readlink spec_psql data0 ''/l'' 3 (world0\<lparr>buf := ''xxx''\<rparr>))) =
     [CHR ''/'', CHR ''f'', NUL]"
proof -
  have ok: "pool_ok data0 (world0\<lparr>buf := b\<rparr>)" for b
    by (simp add: pool_ok_def data0_def world0_def)
  have f: "psql_read_meta_from_path spec_psql (committed (world0\<lparr>buf := b\<rparr>)) ''/f'' =
      (3, mk_meta (0x1A4 OR S_IFREG) 5 1)" for b
    by code_simp
  have l: "psql_read_meta_from_path spec_psql (committed (world0\<lparr>buf := b\<rparr>)) ''/l'' =
      (5, mk_meta (0x1FF OR S_IFLNK) 2 1)" for b
    by code_simp
  have rf: "psql_read_buf spec_psql (committed (world0\<lparr>buf := b\<rparr>)) (block_size data0) 3 ''/f'' 0
      (meta_size (mk_meta (0x1A4 OR S_IFREG) 5 1)) = (5, ''hello'')" for b
    by code_simp
  have rl: "psql_read_buf spec_psql (committed (world0\<lparr>buf := b\<rparr>)) (block_size data0) 5 ''/l'' 0
      (meta_size (mk_meta (0x1FF OR S_IFLNK) 2 1)) = (2, ''/f'')" for b
    by code_simp
  have modes: "\<not> S_ISLNK (meta_mode (mk_meta (0x1A4 OR S_IFREG) 5 1))"
      "S_ISLNK (meta_mode (mk_meta (0x1FF OR S_IFLNK) 2 1))"
    by (simp_all add: S_ISLNK_def mk_meta_def)
  have sz: "meta_size (mk_meta (0x1A4 OR S_IFREG) 5 1) + 1 < 2 ^ 64"
      "meta_size (mk_meta (0x1FF OR S_IFLNK) 2 1) + 1 < 2 ^ 64"
      "meta_size (mk_meta (0x1FF OR S_IFLNK) 2 1) = 2"
    by (simp_all add: mk_meta_def)
  have w: "buf (world0\<lparr>buf := b\<rparr>) = b" for b by simp
  show ?thesis
    using readlink_contract [OF ok [of "''xxxxxxxx''"] f [of "''xxxxxxxx''"] _ sz(1)
        rf [of "''xxxxxxxx''"], where sz = 8]
      readlink_contract [OF ok [of "''xx''"] l [of "''xx''"] _ sz(2) rl [of "''xx''"],
        where sz = 2]
      readlink_contract [OF ok [of "''xxx''"] l [of "''xxx''"] _ sz(2) rl [of "''xxx''"],
        where sz = 3]
      modes sz(3)
    by (simp add: store_def)
qed

subsection \<open>Writing\<close>

text \<open>
  Claim C4. For an open file of size S on a writable mount, a write of \<open>sz\<close> bytes at
  \<open>offset\<close>: when the block engine reports \<open>sz\<close> bytes written and the metadata is stored,
  the handler returns \<open>sz\<close> and commits the state in which the metadata was written with
  size max(S, offset + sz); when the engine reports another byte count, the handler
  returns \<open>-EIO\<close> after a rollback, and the durable state, hence the size, is unchanged.
  The offset is not negative, offset + sz is below \<open>2 ^ 64\<close>, and \<open>sz\<close> and the engine's
  count fit an \<^verbatim>\<open>int\<close>.
\<close>

theorem write_contract:
  assumes ok: "pool_ok data w"
    and rw: "\<not> read_only data"
    and handle: "fh (fi w) \<noteq> 0"
    and meta: "psql_read_meta q (committed w) (int (fh (fi w))) path = (t, m)" "0 \<le> t"
    and range: "0 \<le> offset" "offset + int sz < 2 ^ 64" "sz < 2 ^ 31"
    and wr: "psql_write_buf q (committed w) (block_size data) (int (fh (fi w))) path wbuf offset sz
               = (res, db1)"
    and res: "0 \<le> res" "res < 2 ^ 31"
    and wm: "psql_write_meta q db1 (int (fh (fi w))) path
               (m\<lparr>meta_size := max (meta_size m) (nat offset + sz)\<rparr>) = (r2, db2)"
  shows "(res = int sz \<and> 0 \<le> r2 \<longrightarrow>
            fst (pgfuse_write q data path wbuf sz offset w) = int sz \<and>
            committed (snd (pgfuse_write q data path wbuf sz offset w)) = db2) \<and>
         (res \<noteq> int sz \<longrightarrow>
            fst (pgfuse_write q data path wbuf sz offset w) = - EIO \<and>
            committed (snd (pgfuse_write q data path wbuf sz offset w)) = committed w \<and>
            working (snd (pgfuse_write q data path wbuf sz offset w)) = committed w \<and>
            trace (snd (pgfuse_write q data path wbuf sz offset w)) =
              trace w @ [Acquire, Begin, Rollback, Release])"
proof -
  have s: "to_size_t (offset + int sz) = nat offset + sz"
    using range by (simp add: to_size_t_id nat_add_distrib)
  have r: "to_size_t res = nat res" using res by (simp add: to_size_t_id)
  have i: "to_int (int sz) = int sz" using range by (simp add: to_int_id)
  have mx: "(if nat offset + sz > meta_size m then m\<lparr>meta_size := nat offset + sz\<rparr> else m) =
      m\<lparr>meta_size := max (meta_size m) (nat offset + sz)\<rparr>"
    by (simp add: max_def)
  show ?thesis
    using ok rw handle meta wr res(1) wm s r i mx
    by (auto simp: pgfuse_write_def run_simps)
qed

text \<open>
  Writing two bytes at offset 5 of the five-byte file \<open>/f\<close> returns 2 and stores the size
  7; with the engine that writes short, the same call returns \<open>-EIO\<close> and the database is
  as before.
\<close>

theorem write_contract_witness:
  "fst (pgfuse_write spec_psql data0 ''/f'' ''AB'' 2 5 world3) = 2 \<and>
   meta_size (snd (spec_read_meta
     (committed (snd (pgfuse_write spec_psql data0 ''/f'' ''AB'' 2 5 world3))) 3 ''/f'')) = 7 \<and>
   fst (pgfuse_write short_psql data0 ''/f'' ''AB'' 2 5 world3) = - EIO \<and>
   committed (snd (pgfuse_write short_psql data0 ''/f'' ''AB'' 2 5 world3)) = db0"
proof -
  define m where "m = mk_meta (0x1A4 OR S_IFREG) 5 1"
  define X where "X = spec_write_buf db0 4 3 ''/f'' ''AB'' 5 2"
  define Y where "Y = spec_write_meta (snd X) 3 ''/f'' (m\<lparr>meta_size := max (meta_size m) (nat 5 + 2)\<rparr>)"
  define Z where "Z = spec_write_meta db0 3 ''/f'' (m\<lparr>meta_size := max (meta_size m) (nat 5 + 2)\<rparr>)"
  have ok: "pool_ok data0 world3" by (simp add: pool_ok_def data0_def world3_def world0_def)
  have rw: "\<not> read_only data0" by (simp add: data0_def)
  have handle: "fh (fi world3) \<noteq> 0" "int (fh (fi world3)) = 3" "committed world3 = db0"
      "block_size data0 = 4"
    by (simp_all add: world3_def world0_def data0_def)
  have meta: "psql_read_meta spec_psql (committed world3) (int (fh (fi world3))) ''/f'' = (3, m)"
    "psql_read_meta short_psql (committed world3) (int (fh (fi world3))) ''/f'' = (3, m)"
    unfolding handle m_def by code_simp+
  have wr: "psql_write_buf spec_psql (committed world3) (block_size data0) (int (fh (fi world3)))
      ''/f'' ''AB'' 5 2 = (fst X, snd X)"
    unfolding handle X_def by (simp add: spec_psql_def)
  have wr': "psql_write_buf short_psql (committed world3) (block_size data0)
      (int (fh (fi world3))) ''/f'' ''AB'' 5 2 = (1, db0)"
    unfolding handle by (simp add: short_psql_def)
  have res: "fst X = 2" unfolding X_def by code_simp
  have wm: "psql_write_meta spec_psql (snd X) (int (fh (fi world3))) ''/f''
      (m\<lparr>meta_size := max (meta_size m) (nat 5 + 2)\<rparr>) = (fst Y, snd Y)"
    unfolding handle Y_def by (simp add: spec_psql_def)
  have wm': "psql_write_meta short_psql db0 (int (fh (fi world3))) ''/f''
      (m\<lparr>meta_size := max (meta_size m) (nat 5 + 2)\<rparr>) = (fst Z, snd Z)"
    unfolding handle Z_def by (simp add: spec_psql_def short_psql_def)
  have r2: "fst Y = 0" unfolding Y_def X_def m_def by code_simp
  have stored: "meta_size (snd (spec_read_meta (snd Y) 3 ''/f'')) = 7"
    unfolding Y_def X_def m_def by code_simp
  have good: "fst (pgfuse_write spec_psql data0 ''/f'' ''AB'' 2 5 world3) = 2 \<and>
      committed (snd (pgfuse_write spec_psql data0 ''/f'' ''AB'' 2 5 world3)) = snd Y"
    using write_contract [OF ok rw handle(1) meta(1) _ _ _ _ wr _ _ wm] res r2 by simp
  have bad: "fst (pgfuse_write short_psql data0 ''/f'' ''AB'' 2 5 world3) = - EIO \<and>
      committed (snd (pgfuse_write short_psql data0 ''/f'' ''AB'' 2 5 world3)) = db0"
    using write_contract [OF ok rw handle(1) meta(2) _ _ _ _ wr' _ _ wm'] handle(3) by simp
  show ?thesis using good bad stored by simp
qed

subsection \<open>Renaming onto an existing destination\<close>




subsection \<open>getattr against fgetattr\<close>

text \<open>
  Claim C6 says that after a successful \<^verbatim>\<open>open\<close>, \<^verbatim>\<open>getattr\<close> and \<^verbatim>\<open>fgetattr\<close> return
  identical metadata, timestamps included. \<^verbatim>\<open>fgetattr\<close> never assigns the three
  timestamps, which \<^verbatim>\<open>getattr\<close> does: after \<^verbatim>\<open>open\<close> of \<open>/f\<close>, both succeed on the same
  inode, \<^verbatim>\<open>getattr\<close> reports the times 9, 8 and 7 and \<^verbatim>\<open>fgetattr\<close> reports 0 for each.
\<close>

theorem fgetattr_omits_timestamps:
  "pgfuse_open spec_psql data0 ''/f'' world0 = (0, world_open) \<and>
   fst (pgfuse_getattr spec_psql data0 ''/f'' world_open) = 0 \<and>
   fst (pgfuse_fgetattr spec_psql data0 ''/f'' world_open) = 0 \<and>
   st_atime (stbuf (snd (pgfuse_getattr spec_psql data0 ''/f'' world_open))) = 9 \<and>
   st_mtime (stbuf (snd (pgfuse_getattr spec_psql data0 ''/f'' world_open))) = 8 \<and>
   st_ctime (stbuf (snd (pgfuse_getattr spec_psql data0 ''/f'' world_open))) = 7 \<and>
   st_atime (stbuf (snd (pgfuse_fgetattr spec_psql data0 ''/f'' world_open))) = 0 \<and>
   st_mtime (stbuf (snd (pgfuse_fgetattr spec_psql data0 ''/f'' world_open))) = 0 \<and>
   st_ctime (stbuf (snd (pgfuse_fgetattr spec_psql data0 ''/f'' world_open))) = 0"
proof -
  have o: "pgfuse_open spec_psql data0 ''/f'' world0 = (0, world_open)" by code_simp
  have ok: "pool_ok data0 world_open"
    by (simp add: pool_ok_def data0_def world_open_def world0_def)
  have B: "0 < block_size data0" by (simp add: data0_def)
  have p: "psql_read_meta_from_path spec_psql (committed world_open) ''/f'' =
      (3, mk_meta (0x1A4 OR S_IFREG) 5 1)"
    by code_simp
  have h: "psql_read_meta spec_psql (committed world_open) (int (fh (fi world_open))) ''/f'' =
      (3, mk_meta (0x1A4 OR S_IFREG) 5 1)"
    by code_simp
  show ?thesis
    using o getattr_result [OF ok p _ B] fgetattr_result [OF ok h _ B]
    by (simp add: fill_stat_times zero_stat_def mk_meta_def)
qed

subsection \<open>Read-only mount\<close>

text \<open>
  Claim C1 says that on a read-only mount every mutating handler returns \<open>-EROFS\<close> and
  leaves the database unchanged. \<^verbatim>\<open>utimens\<close> has no test of the read-only flag: on the
  read-only sample mount it returns 0 and the modification time of \<open>/f\<close> changes from 8 to
  3 in the durable state. \<^verbatim>\<open>write\<close> returns \<open>-EBADF\<close> instead of \<open>-EROFS\<close>.
\<close>

theorem read_only_mount_slips:
  "fst (pgfuse_utimens spec_psql ro_data ''/f'' \<lparr>tv_sec = 1, tv_nsec = 2\<rparr> \<lparr>tv_sec = 3, tv_nsec = 4\<rparr>
          world0) = 0 \<and>
   meta_mtime (snd (spec_read_meta_from_path (committed world0) ''/f'')) = \<lparr>tv_sec = 8, tv_nsec = 0\<rparr> \<and>
   meta_mtime (snd (spec_read_meta_from_path
     (committed (snd (pgfuse_utimens spec_psql ro_data ''/f'' \<lparr>tv_sec = 1, tv_nsec = 2\<rparr>
        \<lparr>tv_sec = 3, tv_nsec = 4\<rparr> world0))) ''/f'')) = \<lparr>tv_sec = 3, tv_nsec = 4\<rparr> \<and>
   fst (pgfuse_write spec_psql ro_data ''/f'' ''AB'' 2 5 world3) = - EBADF"
  by code_simp

subsection \<open>Rollback and release on every return\<close>

text \<open>
  Claim C2 says that every return of a negative code is preceded by a rollback and that
  every return releases the connection and ends the transaction. \<^verbatim>\<open>rename\<close> of a missing
  source returns \<open>-ENOENT\<close> after the events Acquire and Begin only: the transaction is
  open and connection 1 is not back in the pool. The same holds for \<^verbatim>\<open>rename\<close> onto an
  existing file (\<open>-EEXIST\<close>) and for \<^verbatim>\<open>statfs\<close> when the system call fails.
\<close>

theorem rename_returns_inside_transaction:
  "fst (pgfuse_rename spec_psql data0 env0 ''/nope'' ''/x'' world0) = - ENOENT \<and>
   trace (snd (pgfuse_rename spec_psql data0 env0 ''/nope'' ''/x'' world0)) = [Acquire, Begin] \<and>
   in_tx (snd (pgfuse_rename spec_psql data0 env0 ''/nope'' ''/x'' world0)) \<and>
   avail (pool world0) = [1, 2] \<and>
   avail (pool (snd (pgfuse_rename spec_psql data0 env0 ''/nope'' ''/x'' world0))) = [2] \<and>
   fst (pgfuse_rename spec_psql data0 env0 ''/f'' ''/d/g'' world0) = - EEXIST \<and>
   trace (snd (pgfuse_rename spec_psql data0 env0 ''/f'' ''/d/g'' world0)) = [Acquire, Begin] \<and>
   fst (pgfuse_statfs spec_psql host_failing data0 env0 ''/'' world0) = - 1 \<and>
   trace (snd (pgfuse_statfs spec_psql host_failing data0 env0 ''/'' world0)) = [Acquire, Begin]"
  by code_simp

subsection \<open>Creating a file\<close>

text \<open>
  Claim C5, as amended. On a writable mount, for an absolute path other than the root, with
  the resolver of the specification, inode ids that are not negative, and a clock that reads
  \<open>sec\<close> seconds and \<open>usec\<close> microseconds: if the parent does not resolve, create returns the
  resolver's answer for the parent, which is \<open>-ENOENT\<close> or \<open>-ENOTDIR\<close>; if the parent resolves
  to an inode that is not a directory, create returns \<open>-ENOTDIR\<close>; if the path resolves, create
  returns \<open>-EISDIR\<close> when the inode is a directory and \<open>-EEXIST\<close> otherwise; and when the
  parent is a directory and the path is new, create returns 0, the path resolves afterwards
  to the positive id stored in the file handle, and the new inode has size 0, the given mode,
  the uid and gid of the calling context, the parent's id, and all three timestamps equal to
  \<open>sec\<close> seconds and \<open>usec * 1000\<close> nanoseconds. The answer \<open>-ENOTDIR\<close> comes from the lookup
  of the path itself; the handler's own test of the parent answers \<open>-ENOENT\<close>: for every
  layer \<open>q\<close> whose lookup of the path answers \<open>-ENOENT\<close> while the parent resolves to an inode
  that is not a directory, create returns \<open>-ENOENT\<close>.
\<close>

theorem create_contract:
  assumes ok: "pool_ok data w" and rw: "\<not> read_only data"
    and mem: "strdup_ok e 0" "strdup_ok e 1"
    and clock: "timeofday e = Some (sec, usec)"
    and p: "proper_path path" and ids: "wf_ids (committed w)"
    and par: "spec_read_meta_from_path (committed w) (dirname path) = (pid, pm)"
    and tgt: "spec_read_meta_from_path (committed w) path = (i, m)"
  shows "(pid < 0 \<longrightarrow> (pid = - ENOENT \<or> pid = - ENOTDIR) \<and>
            fst (pgfuse_create spec_psql data e path mode w) = pid) \<and>
         (0 \<le> pid \<and> \<not> S_ISDIR (meta_mode pm) \<longrightarrow>
            fst (pgfuse_create spec_psql data e path mode w) = - ENOTDIR) \<and>
         (0 \<le> i \<longrightarrow> fst (pgfuse_create spec_psql data e path mode w) =
            (if S_ISDIR (meta_mode m) then - EISDIR else - EEXIST)) \<and>
         (0 \<le> pid \<and> S_ISDIR (meta_mode pm) \<and> i < 0 \<longrightarrow>
            fst (pgfuse_create spec_psql data e path mode w) = 0 \<and>
            fst (spec_read_meta_from_path
                  (committed (snd (pgfuse_create spec_psql data e path mode w))) path) =
              int (fh (fi (snd (pgfuse_create spec_psql data e path mode w)))) \<and>
            0 < fh (fi (snd (pgfuse_create spec_psql data e path mode w))) \<and>
            snd (spec_read_meta_from_path
                  (committed (snd (pgfuse_create spec_psql data e path mode w))) path) =
              pm\<lparr>meta_size := 0, meta_mode := mode, meta_uid := ctx_uid e,
                 meta_gid := ctx_gid e,
                 meta_ctime := \<lparr>tv_sec = sec, tv_nsec = usec * 1000\<rparr>,
                 meta_mtime := \<lparr>tv_sec = sec, tv_nsec = usec * 1000\<rparr>,
                 meta_atime := \<lparr>tv_sec = sec, tv_nsec = usec * 1000\<rparr>,
                 meta_parent_id := pid\<rparr>) \<and>
         (psql_read_meta_from_path q (committed w) path = (- ENOENT, qm) \<and>
          psql_read_meta_from_path q (committed w) (dirname path) = (qpid, qpm) \<and>
          0 \<le> qpid \<and> \<not> S_ISDIR (meta_mode qpm) \<longrightarrow>
            fst (pgfuse_create q data e path mode w) = - ENOENT)"
proof -
  have step: "(i, m) = walk_step (committed w) (pid, pm) (basename path)"
    using resolve_dirname [OF p, of "committed w"] par tgt by simp
  have n: "now e = \<lparr>tv_sec = sec, tv_nsec = usec * 1000\<rparr>"
    using clock by (simp add: now_def)
  have a: "(pid = - ENOENT \<or> pid = - ENOTDIR) \<and>
      fst (pgfuse_create spec_psql data e path mode w) = pid" if h: "pid < 0"
  proof -
    have e: "pid = - ENOENT \<or> pid = - ENOTDIR" using resolve_error [OF ids par h] .
    have "fst (pgfuse_create spec_psql data e path mode w) = pid"
      using ok rw mem par tgt step h e
      by (auto simp: pgfuse_create_def run_simps spec_psql_simps to_int_def)
    then show ?thesis using e by simp
  qed
  have b: "0 \<le> pid \<and> \<not> S_ISDIR (meta_mode pm) \<longrightarrow>
      fst (pgfuse_create spec_psql data e path mode w) = - ENOTDIR"
    using ok rw mem par tgt step
    by (auto simp: pgfuse_create_def run_simps spec_psql_simps to_int_def)
  have c: "0 \<le> i \<longrightarrow> fst (pgfuse_create spec_psql data e path mode w) =
      (if S_ISDIR (meta_mode m) then - EISDIR else - EEXIST)"
    using ok rw tgt by (auto simp: pgfuse_create_def run_simps spec_psql_simps)
  have d: "fst (pgfuse_create spec_psql data e path mode w) = 0 \<and>
      fst (spec_read_meta_from_path
            (committed (snd (pgfuse_create spec_psql data e path mode w))) path) =
        int (fh (fi (snd (pgfuse_create spec_psql data e path mode w)))) \<and>
      0 < fh (fi (snd (pgfuse_create spec_psql data e path mode w))) \<and>
      snd (spec_read_meta_from_path
            (committed (snd (pgfuse_create spec_psql data e path mode w))) path) =
        pm\<lparr>meta_size := 0, meta_mode := mode, meta_uid := ctx_uid e,
           meta_gid := ctx_gid e,
           meta_ctime := \<lparr>tv_sec = sec, tv_nsec = usec * 1000\<rparr>,
           meta_mtime := \<lparr>tv_sec = sec, tv_nsec = usec * 1000\<rparr>,
           meta_atime := \<lparr>tv_sec = sec, tv_nsec = usec * 1000\<rparr>,
           meta_parent_id := pid\<rparr>"
    if h: "0 \<le> pid" "S_ISDIR (meta_mode pm)" "i < 0"
  proof -
    have fresh: "lookup_child (committed w) pid (basename path) = None"
      using step h lookup_child_id [OF ids, of pid "basename path"]
      by (auto split: option.splits)
    then have i: "i = - ENOENT" using step h by simp
    define m0 where "m0 = pm\<lparr>meta_size := 0, meta_mode := mode, meta_uid := ctx_uid e,
      meta_gid := ctx_gid e, meta_ctime := \<lparr>tv_sec = sec, tv_nsec = usec * 1000\<rparr>,
      meta_mtime := \<lparr>tv_sec = sec, tv_nsec = usec * 1000\<rparr>,
      meta_atime := \<lparr>tv_sec = sec, tv_nsec = usec * 1000\<rparr>\<rparr>"
    have cr: "spec_create (committed w) pid path (basename path) m0 =
        (0, with_child (committed w) pid (basename path) m0)"
      using fresh by (rule spec_create_new)
    have rd: "spec_read_meta_from_path (with_child (committed w) pid (basename path) m0) path =
        (fresh_id (committed w), m0\<lparr>meta_parent_id := pid\<rparr>)"
      using resolve_created [OF p par h(1,2) fresh] .
    have pos: "0 < fresh_id (committed w)" by (rule fresh_id_pos)
    show ?thesis
      using ok rw mem par tgt h(1,2) i cr rd pos
      by (simp add: pgfuse_create_def run_simps spec_psql_simps to_int_def n
          m0_def [symmetric])
  qed
  have own: "psql_read_meta_from_path q (committed w) path = (- ENOENT, qm) \<and>
      psql_read_meta_from_path q (committed w) (dirname path) = (qpid, qpm) \<and>
      0 \<le> qpid \<and> \<not> S_ISDIR (meta_mode qpm) \<longrightarrow>
        fst (pgfuse_create q data e path mode w) = - ENOENT"
    using ok rw mem by (auto simp: pgfuse_create_def run_simps)
  show ?thesis using a b c d own by blast
qed

text \<open>
  On the sample file system: a missing parent, a parent below a regular file, a regular file
  as parent with the resolver of the specification and with the layer \<open>lax_psql\<close>, an
  existing directory, an existing file, and a new file in \<open>/d\<close>.
\<close>

theorem create_contract_witness:
  "fst (pgfuse_create spec_psql data0 env0 ''/nope/x'' 0x81A4 world0) = - ENOENT \<and>
   fst (pgfuse_create spec_psql data0 env0 ''/f/x/y'' 0x81A4 world0) = - ENOTDIR \<and>
   fst (pgfuse_create spec_psql data0 env0 ''/f/x'' 0x81A4 world0) = - ENOTDIR \<and>
   fst (pgfuse_create lax_psql data0 env0 ''/f/x'' 0x81A4 world0) = - ENOENT \<and>
   fst (pgfuse_create spec_psql data0 env0 ''/d'' 0x81A4 world0) = - EISDIR \<and>
   fst (pgfuse_create spec_psql data0 env0 ''/d/g'' 0x81A4 world0) = - EEXIST \<and>
   fst (pgfuse_create spec_psql data0 env0 ''/d/x'' 0x81A4 world0) = 0 \<and>
   0 < fh (fi (snd (pgfuse_create spec_psql data0 env0 ''/d/x'' 0x81A4 world0))) \<and>
   fst (spec_read_meta_from_path
         (committed (snd (pgfuse_create spec_psql data0 env0 ''/d/x'' 0x81A4 world0))) ''/d/x'') =
     int (fh (fi (snd (pgfuse_create spec_psql data0 env0 ''/d/x'' 0x81A4 world0)))) \<and>
   snd (spec_read_meta_from_path
         (committed (snd (pgfuse_create spec_psql data0 env0 ''/d/x'' 0x81A4 world0))) ''/d/x'') =
     \<lparr>meta_size = 0, meta_mode = 0x81A4, meta_uid = 501, meta_gid = 20,
      meta_ctime = \<lparr>tv_sec = 1000, tv_nsec = 250000\<rparr>,
      meta_mtime = \<lparr>tv_sec = 1000, tv_nsec = 250000\<rparr>,
      meta_atime = \<lparr>tv_sec = 1000, tv_nsec = 250000\<rparr>, meta_parent_id = 2\<rparr>"
proof -
  have ok: "pool_ok data0 world0" by (simp add: pool_ok_def data0_def world0_def)
  have rw: "\<not> read_only data0" by (simp add: data0_def)
  have mem: "strdup_ok env0 0" "strdup_ok env0 1" by (simp_all add: env0_def)
  have clock: "timeofday env0 = Some (1000, 250)" by (simp add: env0_def)
  have ids: "wf_ids (committed world0)" by code_simp
  have p: "proper_path ''/nope/x''" "proper_path ''/f/x''" "proper_path ''/d''"
      "proper_path ''/d/g''" "proper_path ''/d/x''" "proper_path ''/f/x/y''"
    by (simp_all add: proper_path_def strip_slashes_def)
  have r: "spec_read_meta_from_path (committed world0) (dirname ''/nope/x'') =
        (- ENOENT, mk_meta (0x1ED OR S_IFDIR) 3 1)"
      "spec_read_meta_from_path (committed world0) ''/nope/x'' =
        (- ENOENT, mk_meta (0x1ED OR S_IFDIR) 3 1)"
      "spec_read_meta_from_path (committed world0) (dirname ''/f/x'') =
        (3, mk_meta (0x1A4 OR S_IFREG) 5 1)"
      "spec_read_meta_from_path (committed world0) ''/f/x'' =
        (- ENOTDIR, mk_meta (0x1A4 OR S_IFREG) 5 1)"
      "spec_read_meta_from_path (committed world0) (dirname ''/d'') =
        (1, mk_meta (0x1ED OR S_IFDIR) 3 1)"
      "spec_read_meta_from_path (committed world0) ''/d'' =
        (2, mk_meta (0x1ED OR S_IFDIR) 1 1)"
      "spec_read_meta_from_path (committed world0) (dirname ''/d/g'') =
        (2, mk_meta (0x1ED OR S_IFDIR) 1 1)"
      "spec_read_meta_from_path (committed world0) ''/d/g'' =
        (4, mk_meta (0x1A4 OR S_IFREG) 0 2)"
      "spec_read_meta_from_path (committed world0) ''/d/x'' =
        (- ENOENT, mk_meta (0x1ED OR S_IFDIR) 1 1)"
      "spec_read_meta_from_path (committed world0) (dirname ''/d/x'') =
        (2, mk_meta (0x1ED OR S_IFDIR) 1 1)"
      "spec_read_meta_from_path (committed world0) (dirname ''/f/x/y'') =
        (- ENOTDIR, mk_meta (0x1A4 OR S_IFREG) 5 1)"
      "spec_read_meta_from_path (committed world0) ''/f/x/y'' =
        (- ENOTDIR, mk_meta (0x1A4 OR S_IFREG) 5 1)"
    by code_simp+
  have lax: "psql_read_meta_from_path lax_psql (committed world0) ''/f/x'' =
        (- ENOENT, mk_meta (0x1A4 OR S_IFREG) 5 1)"
      "psql_read_meta_from_path lax_psql (committed world0) (dirname ''/f/x'') =
        (3, mk_meta (0x1A4 OR S_IFREG) 5 1)"
    by code_simp+
  have modes: "\<not> S_ISDIR (meta_mode (mk_meta (0x1A4 OR S_IFREG) 5 1))"
      "\<not> S_ISDIR (meta_mode (mk_meta (0x1A4 OR S_IFREG) 0 2))"
      "S_ISDIR (meta_mode (mk_meta (0x1ED OR S_IFDIR) 1 1))"
    by (simp_all add: S_ISDIR_def mk_meta_def)
  show ?thesis
    using create_contract [OF ok rw mem clock p(1) ids r(1) r(2), of "0x81A4"]
      create_contract [OF ok rw mem clock p(6) ids r(11) r(12), of "0x81A4"]
      create_contract [OF ok rw mem clock p(2) ids r(3) r(4), of "0x81A4" lax_psql
        "mk_meta (0x1A4 OR S_IFREG) 5 1" 3 "mk_meta (0x1A4 OR S_IFREG) 5 1"]
      create_contract [OF ok rw mem clock p(3) ids r(5) r(6), of "0x81A4"]
      create_contract [OF ok rw mem clock p(4) ids r(7) r(8), of "0x81A4"]
      create_contract [OF ok rw mem clock p(5) ids r(10) r(9), of "0x81A4"]
      modes lax
    by (simp add: mk_meta_def env0_def)
qed

text \<open>
  Claim C5 as stated fails: \<open>/f\<close> is a regular file, so the parent \<open>/f/x\<close> of \<open>/f/x/y\<close> does not
  exist, and create returns \<open>-ENOTDIR\<close>, not \<open>-ENOENT\<close>.
\<close>

theorem create_missing_parent_counterexample:
  "fst (spec_read_meta_from_path (committed world0) ''/f/x'') = - ENOTDIR \<and>
   dirname ''/f/x/y'' = ''/f/x'' \<and>
   fst (pgfuse_create spec_psql data0 env0 ''/f/x/y'' 0x81A4 world0) = - ENOTDIR"
  by code_simp

subsection \<open>Symbolic link round trip\<close>

text \<open>
  Claim C10, with the database layer of the specification. For every target \<open>t\<close> and
  every new absolute path \<open>p\<close> whose parent is an existing directory, on a writable
  mount: \<^verbatim>\<open>symlink\<close> returns 0 and \<open>p\<close> then resolves to an inode of mode
  \<open>0777 | S_IFLNK\<close> and size \<open>length t\<close>; a following \<^verbatim>\<open>readlink\<close> of \<open>p\<close> with a buffer of
  at least \<open>length t + 1\<close> bytes returns 0 and leaves \<open>t\<close> followed by a NUL at the start
  of the buffer. The length of \<open>t\<close> fits an \<^verbatim>\<open>int\<close>.
\<close>

theorem symlink_readlink:
  assumes ok: "pool_ok data w" and rw: "\<not> read_only data" and B: "0 < block_size data"
    and mem: "strdup_ok e 0" "strdup_ok e 1"
    and p: "proper_path p" and ids: "wf_ids (committed w)"
    and par: "spec_read_meta_from_path (committed w) (dirname p) = (pid, pm)" "0 \<le> pid"
      "S_ISDIR (meta_mode pm)"
    and fresh: "fst (spec_read_meta_from_path (committed w) p) = - ENOENT"
    and len: "length t < 2 ^ 31"
    and room: "length t + 1 \<le> sz" "length b = sz"
  shows "fst (pgfuse_symlink spec_psql data e t p w) = 0 \<and>
         meta_mode (snd (spec_read_meta_from_path
           (committed (snd (pgfuse_symlink spec_psql data e t p w))) p)) = 0x1FF OR S_IFLNK \<and>
         meta_size (snd (spec_read_meta_from_path
           (committed (snd (pgfuse_symlink spec_psql data e t p w))) p)) = length t \<and>
         fst (pgfuse_readlink spec_psql data p sz
           ((snd (pgfuse_symlink spec_psql data e t p w))\<lparr>buf := b\<rparr>)) = 0 \<and>
         take (length t + 1) (buf (snd (pgfuse_readlink spec_psql data p sz
           ((snd (pgfuse_symlink spec_psql data e t p w))\<lparr>buf := b\<rparr>)))) = t @ [NUL]"
proof -
  define m0 where "m0 = pm\<lparr>meta_size := length t, meta_mode := 0x1FF OR S_IFLNK,
    meta_uid := ctx_uid e, meta_gid := ctx_gid e, meta_ctime := now e, meta_mtime := now e,
    meta_atime := now e\<rparr>"
  define db1 where "db1 = with_child (committed w) pid (basename p) m0"
  define i where "i = fresh_id (committed w)"
  define db2 where "db2 = written db1 (block_size data) i t"
  have step: "spec_read_meta_from_path (committed w) p =
      walk_step (committed w) (pid, pm) (basename p)"
    using resolve_dirname [OF p, of "committed w"] par by simp
  have new: "lookup_child (committed w) pid (basename p) = None"
    using step fresh par lookup_child_id [OF ids, of pid "basename p"]
    by (auto split: option.splits)
  have cr: "spec_create (committed w) pid p (basename p) m0 = (0, db1)"
    unfolding db1_def using new by (rule spec_create_new)
  have rd1: "spec_read_meta_from_path db1 p = (i, m0\<lparr>meta_parent_id := pid\<rparr>)"
    unfolding db1_def i_def using resolve_created [OF p par new] .
  have pos: "0 < i" unfolding i_def by (rule fresh_id_pos)
  have fnd: "find_inode db1 i =
      Some \<lparr>ino_id = i, ino_name = basename p, ino_meta = m0\<lparr>meta_parent_id := pid\<rparr>\<rparr>"
    unfolding db1_def i_def by (rule find_inode_with_child)
  have wr: "spec_write_buf db1 (block_size data) i p t 0 (length t) = (int (length t), db2)"
    unfolding db2_def using B len fnd by (intro spec_write_buf_eq) simp_all
  have rd2: "spec_read_meta_from_path db2 p = (i, m0\<lparr>meta_parent_id := pid\<rparr>)"
    using rd1 resolve_same_inodes [of db2 db1 p] by (simp add: db2_def inodes_written)
  have rb: "spec_read_buf db2 (block_size data) i p 0 (length t) = (int (length t), t)"
    using spec_read_buf_written [OF B fnd, of t p] by (simp add: db2_def m0_def)
  have sz: "to_size_t (int (length t)) = length t" using len by (simp add: to_size_t_id)
  have sym: "fst (pgfuse_symlink spec_psql data e t p w) = 0"
      "committed (snd (pgfuse_symlink spec_psql data e t p w)) = db2"
      "pool (snd (pgfuse_symlink spec_psql data e t p w)) = pool w"
    using ok rw mem par cr [unfolded m0_def] rd1 pos wr sz
    by (simp_all add: pgfuse_symlink_def run_simps spec_psql_simps)
  define w1 where "w1 = (snd (pgfuse_symlink spec_psql data e t p w))\<lparr>buf := b\<rparr>"
  have ok1: "pool_ok data w1" using ok sym(3) by (simp add: w1_def pool_ok_def)
  have c1: "committed w1 = db2" "buf w1 = b" using sym(2) by (simp_all add: w1_def)
  have lnk: "S_ISLNK (meta_mode (m0\<lparr>meta_parent_id := pid\<rparr>))"
      "meta_size (m0\<lparr>meta_parent_id := pid\<rparr>) = length t"
    by (simp_all add: m0_def S_ISLNK_def)
  have md: "(length t + 1) mod 2 ^ 64 = length t + 1" using len by simp
  have rl: "fst (pgfuse_readlink spec_psql data p sz w1) = 0 \<and>
      take (length t + 1) (buf (snd (pgfuse_readlink spec_psql data p sz w1))) = t @ [NUL]"
    using ok1 c1 rd2 pos lnk rb room md
    by (simp add: pgfuse_readlink_def run_simps spec_psql_simps store_nul)
  show ?thesis using sym(1,2) rd2 rl by (simp add: m0_def w1_def)
qed


text \<open>The link \<open>/d/s\<close> to \<open>target\<close> on the sample file system, read with seven bytes.\<close>

theorem symlink_readlink_witness:
  "fst (pgfuse_symlink spec_psql data0 env0 ''target'' ''/d/s'' world0) = 0 \<and>
   meta_size (snd (spec_read_meta_from_path
     (committed (snd (pgfuse_symlink spec_psql data0 env0 ''target'' ''/d/s'' world0))) ''/d/s'')) =
     length ''target'' \<and>
   fst (pgfuse_readlink spec_psql data0 ''/d/s'' 7
     ((snd (pgfuse_symlink spec_psql data0 env0 ''target'' ''/d/s'' world0))\<lparr>buf := ''xxxxxxx''\<rparr>)) = 0 \<and>
   take (length ''target'' + 1) (buf (snd (pgfuse_readlink spec_psql data0 ''/d/s'' 7
     ((snd (pgfuse_symlink spec_psql data0 env0 ''target'' ''/d/s'' world0))\<lparr>buf := ''xxxxxxx''\<rparr>)))) =
     ''target'' @ [NUL]"
proof -
  have ok: "pool_ok data0 world0" by (simp add: pool_ok_def data0_def world0_def)
  have rw: "\<not> read_only data0" and B: "0 < block_size data0" by (simp_all add: data0_def)
  have mem: "strdup_ok env0 0" "strdup_ok env0 1" by (simp_all add: env0_def)
  have p: "proper_path ''/d/s''" by (simp add: proper_path_def strip_slashes_def)
  have ids: "wf_ids (committed world0)" by code_simp
  have par: "spec_read_meta_from_path (committed world0) (dirname ''/d/s'') =
      (2, mk_meta (0x1ED OR S_IFDIR) 1 1)"
    by code_simp
  have dir: "S_ISDIR (meta_mode (mk_meta (0x1ED OR S_IFDIR) 1 1))"
    by (simp add: S_ISDIR_def mk_meta_def)
  have fresh: "fst (spec_read_meta_from_path (committed world0) ''/d/s'') = - ENOENT"
    by code_simp
  have len: "length ''target'' < 2 ^ 31" "length ''target'' + 1 \<le> 7" "length ''xxxxxxx'' = 7"
    by simp_all
  show ?thesis
    using symlink_readlink [OF ok rw B mem p ids par _ dir fresh len] by simp
qed

end
